theory Spec2Isabelle
  imports Main "HOL-Library.Sublist"
begin

section \<open>Strings of the source language\<close>

text \<open>
  A JavaScript string is a sequence of UTF-16 code units. It is modelled as a list of
  natural numbers, one per code unit; \<open>str\<close> embeds an ASCII literal.
\<close>

type_synonym jsstring = "nat list"

definition str :: "string \<Rightarrow> jsstring" where
  "str s = map of_char s"

text \<open>\<^verbatim>\<open>s.startsWith(p)\<close> and \<^verbatim>\<open>s.endsWith(p)\<close>.\<close>

fun startsWith :: "jsstring \<Rightarrow> jsstring \<Rightarrow> bool" where
  "startsWith s [] = True"
| "startsWith [] (p # ps) = False"
| "startsWith (c # cs) (p # ps) = (c = p \<and> startsWith cs ps)"

definition endsWith :: "jsstring \<Rightarrow> jsstring \<Rightarrow> bool" where
  "endsWith s p = startsWith (rev s) (rev p)"

text \<open>
  The code units that \<^verbatim>\<open>trim()\<close> removes and that \<^verbatim>\<open>\s\<close> matches: WhiteSpace and
  LineTerminator of ECMAScript.
\<close>

definition isWhiteSpace :: "nat \<Rightarrow> bool" where
  "isWhiteSpace c =
     (c = 9 \<or> c = 10 \<or> c = 11 \<or> c = 12 \<or> c = 13 \<or> c = 32 \<or> c = 160 \<or> c = 5760
      \<or> (8192 \<le> c \<and> c \<le> 8202) \<or> c = 8232 \<or> c = 8233 \<or> c = 8239 \<or> c = 8287
      \<or> c = 12288 \<or> c = 65279)"

definition trim :: "jsstring \<Rightarrow> jsstring" where
  "trim s = rev (dropWhile isWhiteSpace (rev (dropWhile isWhiteSpace s)))"

text \<open>\<^verbatim>\<open>s.indexOf(pat)\<close>; \<open>None\<close> stands for the result -1.\<close>

fun indexOf :: "jsstring \<Rightarrow> jsstring \<Rightarrow> nat option" where
  "indexOf [] pat = (if pat = [] then Some 0 else None)"
| "indexOf (c # cs) pat =
     (if startsWith (c # cs) pat then Some 0 else map_option Suc (indexOf cs pat))"

text \<open>
  \<^verbatim>\<open>s.replace(pat, rep)\<close> with a string pattern replaces the first occurrence only, and
  the replacement text is a template: GetSubstitution expands \<^verbatim>\<open>$$\<close>, \<^verbatim>\<open>$&\<close>,
  dollar-backquote and dollar-quote. With a string pattern there are no captures, so \<^verbatim>\<open>$1\<close> and
  \<^verbatim>\<open>$<\<close> stay as they are. Code units: \<open>$\<close> is 36, \<open>&\<close> is 38, backquote is 96, \<open>'\<close> is 39.
\<close>

fun getSubstitution :: "jsstring \<Rightarrow> jsstring \<Rightarrow> nat \<Rightarrow> jsstring \<Rightarrow> jsstring" where
  "getSubstitution matched s pos [] = []"
| "getSubstitution matched s pos [c] = [c]"
| "getSubstitution matched s pos (c # d # r) =
     (if c = 36 \<and> d = 36 then 36 # getSubstitution matched s pos r
      else if c = 36 \<and> d = 38 then matched @ getSubstitution matched s pos r
      else if c = 36 \<and> d = 96 then take pos s @ getSubstitution matched s pos r
      else if c = 36 \<and> d = 39 then drop (pos + length matched) s @ getSubstitution matched s pos r
      else c # getSubstitution matched s pos (d # r))"

definition replace :: "jsstring \<Rightarrow> jsstring \<Rightarrow> jsstring \<Rightarrow> jsstring" where
  "replace s pat rep =
     (case indexOf s pat of
        None \<Rightarrow> s
      | Some pos \<Rightarrow> take pos s @ getSubstitution pat s pos rep @ drop (pos + length pat) s)"

text \<open>\<^verbatim>\<open>s.split(sep)\<close> for a separator of one code unit.\<close>

fun split :: "jsstring \<Rightarrow> nat \<Rightarrow> jsstring list" where
  "split [] sep = [[]]"
| "split (c # cs) sep =
     (if c = sep then [] # split cs sep
      else (let r = split cs sep in (c # hd r) # tl r))"


text \<open>
  \<^verbatim>\<open>s.split(/(\r\n|\n|\r)/)\<close>: the separator has a capture group, so every line break is
  itself an element of the result, between the two pieces it separates.
\<close>

fun splitLines :: "jsstring \<Rightarrow> jsstring list" where
  "splitLines [] = [[]]"
| "splitLines [c] = (if c = 13 \<or> c = 10 then [[], [c], []] else [[c]])"
| "splitLines (c # d # ds) =
     (if c = 13 \<and> d = 10 then [] # [13, 10] # splitLines ds
      else if c = 13 \<or> c = 10 then [] # [c] # splitLines (d # ds)
      else (let r = splitLines (d # ds) in (c # hd r) # tl r))"

section \<open>JSON values\<close>

text \<open>
  The values \<^verbatim>\<open>JSON.parse\<close> builds, which are also the values a response carries. An
  object is the list of its own properties; \<^verbatim>\<open>undefined\<close> is \<open>None\<close> of \<open>jsval\<close>.
  A number is kept as the numeral it was written as, see \<open>js_engine\<close> below.
\<close>

datatype json =
    JNull
  | JBool bool
  | JNum jsstring
  | JStr jsstring
  | JArr "json list"
  | JObj "(jsstring \<times> json) list"

type_synonym jsval = "json option"

text \<open>Defining a property on an object: an existing key keeps its place and gets the new value.\<close>

fun put :: "jsstring \<Rightarrow> json \<Rightarrow> (jsstring \<times> json) list \<Rightarrow> (jsstring \<times> json) list" where
  "put k v [] = [(k, v)]"
| "put k v ((k', v') # ms) = (if k = k' then (k, v) # ms else (k', v') # put k v ms)"

subsection \<open>JSON.parse\<close>

text \<open>
  \<^verbatim>\<open>JSON.parse\<close> belongs to the language. It is written out here after the JSON grammar
  (ECMA-404), first the tokens, then the nesting of arrays and objects with an explicit
  stack. \<open>None\<close> stands for the SyntaxError.
\<close>

datatype token = LBrace | RBrace | LBracket | RBracket | Colon | Comma | Scalar json

definition isDigit :: "nat \<Rightarrow> bool" where
  "isDigit c = (48 \<le> c \<and> c \<le> 57)"

definition hexValue :: "nat \<Rightarrow> nat option" where
  "hexValue c =
     (if 48 \<le> c \<and> c \<le> 57 then Some (c - 48)
      else if 65 \<le> c \<and> c \<le> 70 then Some (c - 55)
      else if 97 \<le> c \<and> c \<le> 102 then Some (c - 87)
      else None)"

text \<open>The character an escape letter stands for: quote, backslash, slash, b, f, n, r, t.\<close>

definition escapeValue :: "nat \<Rightarrow> nat option" where
  "escapeValue e =
     (if e = 34 \<or> e = 92 \<or> e = 47 then Some e
      else if e = 98 then Some 8
      else if e = 102 then Some 12
      else if e = 110 then Some 10
      else if e = 114 then Some 13
      else if e = 116 then Some 9
      else None)"

text \<open>
  The rest of a string after its opening quote: the decoded text and what follows the
  closing quote.
\<close>

fun lexString :: "jsstring \<Rightarrow> (jsstring \<times> jsstring) option" where
  "lexString [] = None"
| "lexString (c # cs) =
     (if c = 34 then Some ([], cs)
      else if c = 92 then
        (case cs of
           [] \<Rightarrow> None
         | e # r \<Rightarrow>
             if e = 117 then
               (case r of
                  h1 # h2 # h3 # h4 # r' \<Rightarrow>
                    (case (hexValue h1, hexValue h2, hexValue h3, hexValue h4) of
                       (Some a, Some b, Some c', Some d) \<Rightarrow>
                         map_option (\<lambda>(s, rest). ((((a * 16 + b) * 16 + c') * 16 + d) # s, rest))
                           (lexString r')
                     | _ \<Rightarrow> None)
                | _ \<Rightarrow> None)
             else
               (case escapeValue e of
                  None \<Rightarrow> None
                | Some x \<Rightarrow> map_option (\<lambda>(s, rest). (x # s, rest)) (lexString r)))
      else if c < 32 then None
      else map_option (\<lambda>(s, rest). (c # s, rest)) (lexString cs))"

text \<open>
  A numeral: an optional minus, the integer part (a single 0, or digits not starting
  with 0), an optional fraction and an optional exponent. The result is the numeral and
  the rest of the input.
\<close>

definition lexExponent :: "jsstring \<Rightarrow> jsstring \<times> jsstring" where
  "lexExponent cs =
     (case cs of
        [] \<Rightarrow> ([], cs)
      | e # r \<Rightarrow>
          if e = 101 \<or> e = 69 then
            (let sign = (case r of [] \<Rightarrow> [] | g # t \<Rightarrow> if g = 43 \<or> g = 45 then [g] else []);
                 r' = drop (length sign) r
             in if r' \<noteq> [] \<and> isDigit (hd r')
                then (e # sign @ takeWhile isDigit r', dropWhile isDigit r')
                else ([], cs))
          else ([], cs))"

definition lexFraction :: "jsstring \<Rightarrow> jsstring \<times> jsstring" where
  "lexFraction cs =
     (case cs of
        p # q # r \<Rightarrow>
          if p = 46 \<and> isDigit q then (p # q # takeWhile isDigit r, dropWhile isDigit r)
          else ([], cs)
      | _ \<Rightarrow> ([], cs))"

definition lexNumber :: "jsstring \<Rightarrow> (jsstring \<times> jsstring) option" where
  "lexNumber cs =
     (let sign = (case cs of [] \<Rightarrow> [] | g # t \<Rightarrow> if g = 45 then [g] else []);
          r0 = drop (length sign) cs
      in case r0 of
           [] \<Rightarrow> None
         | d # r1 \<Rightarrow>
             if \<not> isDigit d then None
             else
               (let ip = (if d = 48 then [d] else d # takeWhile isDigit r1);
                    r2 = (if d = 48 then r1 else dropWhile isDigit r1);
                    (fp, r3) = lexFraction r2;
                    (ep, r4) = lexExponent r3
                in Some (sign @ ip @ fp @ ep, r4)))"

lemma lexString_shorter: "lexString cs = Some (s, rest) \<Longrightarrow> length rest < length cs"
proof (induction cs arbitrary: s rest rule: lexString.induct)
  case 1
  then show ?case by simp
next
  case (2 c cs)
  then show ?case
    by (auto split: if_splits list.splits option.splits prod.splits) fastforce+
qed

lemma lexExponent_shorter: "lexExponent cs = (e, rest) \<Longrightarrow> length rest \<le> length cs"
  by (auto simp: lexExponent_def Let_def split: list.splits if_splits
      intro: order_trans [OF length_dropWhile_le])

lemma lexFraction_shorter: "lexFraction cs = (f, rest) \<Longrightarrow> length rest \<le> length cs"
  by (auto simp: lexFraction_def split: list.splits if_splits
      intro: order_trans [OF length_dropWhile_le])

lemma lexNumber_shorter: "lexNumber cs = Some (n, rest) \<Longrightarrow> length rest < length cs"
proof -
  assume a: "lexNumber cs = Some (n, rest)"
  define sign where "sign = (case cs of [] \<Rightarrow> [] | g # t \<Rightarrow> if g = 45 then [g] else [])"
  define r0 where "r0 = drop (length sign) cs"
  from a obtain d r1 where r0: "r0 = d # r1" and dig: "isDigit d"
    by (auto simp: lexNumber_def Let_def sign_def r0_def split: list.splits if_splits)
  define r2 where "r2 = (if d = 48 then r1 else dropWhile isDigit r1)"
  obtain fp r3 where f: "lexFraction r2 = (fp, r3)" by force
  obtain ep r4 where e: "lexExponent r3 = (ep, r4)" by force
  have "rest = r4"
    using a r0 dig f e
    by (simp add: lexNumber_def Let_def sign_def [symmetric] r0_def [symmetric] r2_def [symmetric])
  moreover have "length r4 \<le> length r3" using e by (rule lexExponent_shorter)
  moreover have "length r3 \<le> length r2" using f by (rule lexFraction_shorter)
  moreover have "length r2 \<le> length r1" by (simp add: r2_def length_dropWhile_le)
  moreover have "length r1 < length r0" by (simp add: r0)
  moreover have "length r0 \<le> length cs" by (simp add: r0_def)
  ultimately show ?thesis by simp
qed

function tokenize :: "jsstring \<Rightarrow> token list option" where
  "tokenize [] = Some []"
| "tokenize (c # cs) =
     (if c = 32 \<or> c = 9 \<or> c = 10 \<or> c = 13 then tokenize cs
      else if c = 123 then map_option (Cons LBrace) (tokenize cs)
      else if c = 125 then map_option (Cons RBrace) (tokenize cs)
      else if c = 91 then map_option (Cons LBracket) (tokenize cs)
      else if c = 93 then map_option (Cons RBracket) (tokenize cs)
      else if c = 58 then map_option (Cons Colon) (tokenize cs)
      else if c = 44 then map_option (Cons Comma) (tokenize cs)
      else if c = 34 then
        (case lexString cs of
           None \<Rightarrow> None
         | Some (s, rest) \<Rightarrow> map_option (Cons (Scalar (JStr s))) (tokenize rest))
      else if startsWith (c # cs) (str ''true'') then
        map_option (Cons (Scalar (JBool True))) (tokenize (drop 3 cs))
      else if startsWith (c # cs) (str ''false'') then
        map_option (Cons (Scalar (JBool False))) (tokenize (drop 4 cs))
      else if startsWith (c # cs) (str ''null'') then
        map_option (Cons (Scalar JNull)) (tokenize (drop 3 cs))
      else
        (case lexNumber (c # cs) of
           None \<Rightarrow> None
         | Some (n, rest) \<Rightarrow> map_option (Cons (Scalar (JNum n))) (tokenize rest)))"
  by pat_completeness auto
termination
proof (relation "measure length")
  show "wf (measure length)" by simp
qed (auto dest: lexString_shorter lexNumber_shorter)

text \<open>
  The containers still open, innermost first: the elements of an array read so far, or
  the properties of an object read so far with the key whose value is being read.
\<close>

datatype frame = ArrFrame "json list" | ObjFrame "(jsstring \<times> json) list" jsstring

datatype expect =
    AValue
  | FirstElement
  | FirstKey
  | AKey
  | AColon
  | CommaOrClose
  | Complete json

fun deliver :: "json \<Rightarrow> frame list \<Rightarrow> expect \<times> frame list" where
  "deliver v [] = (Complete v, [])"
| "deliver v (ArrFrame es # st) = (CommaOrClose, ArrFrame (es @ [v]) # st)"
| "deliver v (ObjFrame ms k # st) = (CommaOrClose, ObjFrame (put k v ms) k # st)"

fun startValue :: "token \<Rightarrow> frame list \<Rightarrow> (expect \<times> frame list) option" where
  "startValue (Scalar v) st = Some (deliver v st)"
| "startValue LBracket st = Some (FirstElement, ArrFrame [] # st)"
| "startValue LBrace st = Some (FirstKey, ObjFrame [] [] # st)"
| "startValue t st = None"

fun startKey :: "token \<Rightarrow> frame list \<Rightarrow> (expect \<times> frame list) option" where
  "startKey (Scalar (JStr k)) (ObjFrame ms k' # st) = Some (AColon, ObjFrame ms k # st)"
| "startKey t st = None"

fun closeArray :: "frame list \<Rightarrow> (expect \<times> frame list) option" where
  "closeArray (ArrFrame es # st) = Some (deliver (JArr es) st)"
| "closeArray st = None"

fun closeObject :: "frame list \<Rightarrow> (expect \<times> frame list) option" where
  "closeObject (ObjFrame ms k # st) = Some (deliver (JObj ms) st)"
| "closeObject st = None"

fun afterComma :: "frame list \<Rightarrow> (expect \<times> frame list) option" where
  "afterComma (ArrFrame es # st) = Some (AValue, ArrFrame es # st)"
| "afterComma (ObjFrame ms k # st) = Some (AKey, ObjFrame ms k # st)"
| "afterComma [] = None"

fun parseStep :: "expect \<Rightarrow> frame list \<Rightarrow> token \<Rightarrow> (expect \<times> frame list) option" where
  "parseStep AValue st t = startValue t st"
| "parseStep FirstElement st t = (if t = RBracket then closeArray st else startValue t st)"
| "parseStep FirstKey st t = (if t = RBrace then closeObject st else startKey t st)"
| "parseStep AKey st t = startKey t st"
| "parseStep AColon st t = (if t = Colon then Some (AValue, st) else None)"
| "parseStep CommaOrClose st t =
     (if t = Comma then afterComma st
      else if t = RBracket then closeArray st
      else if t = RBrace then closeObject st
      else None)"
| "parseStep (Complete v) st t = None"

fun parseTokens :: "expect \<Rightarrow> frame list \<Rightarrow> token list \<Rightarrow> json option" where
  "parseTokens e st [] = (case e of Complete v \<Rightarrow> (if st = [] then Some v else None) | _ \<Rightarrow> None)"
| "parseTokens e st (t # ts) =
     (case parseStep e st t of None \<Rightarrow> None | Some (e', st') \<Rightarrow> parseTokens e' st' ts)"

definition JSON_parse :: "jsstring \<Rightarrow> json option" where
  "JSON_parse s = (case tokenize s of None \<Rightarrow> None | Some ts \<Rightarrow> parseTokens AValue [] ts)"

subsection \<open>Operations of the language on these values\<close>

text \<open>
  Two parts of the language are parameters of the model.

  \<^verbatim>\<open>JSON.parse\<close> turns a numeral into a floating-point number. The model keeps the
  numeral and takes as parameters the four things the program can observe of the number:
  whether it is truthy (neither zero nor NaN), its text in a string concatenation, and
  whether it, or the number a text converts to, is greater than zero.

  \<open>regExp\<close> stands for \<^verbatim>\<open>new RegExp(pattern, 'gs')\<close> followed by
  \<^verbatim>\<open>text.replace(regex, '')\<close>: for the source text of a pattern it is \<open>None\<close> when the
  constructor throws a \<^verbatim>\<open>SyntaxError\<close>, and otherwise the function that takes a text to
  the text without the matches of the pattern. The model asks it only for the patterns
  whose matches it does not compute itself, see \<open>removeTagMatches\<close>.
\<close>

record js_engine =
  numberTruthy :: "jsstring \<Rightarrow> bool"
  numberText :: "jsstring \<Rightarrow> jsstring"
  numberPositive :: "jsstring \<Rightarrow> bool"
  textPositive :: "jsstring \<Rightarrow> bool"
  regExp :: "jsstring \<Rightarrow> (jsstring \<Rightarrow> jsstring) option"

text \<open>ToBoolean, as \<^verbatim>\<open>if\<close>, \<^verbatim>\<open>&&\<close> and \<^verbatim>\<open>!\<close> apply it.\<close>

fun truthy :: "js_engine \<Rightarrow> jsval \<Rightarrow> bool" where
  "truthy N None = False"
| "truthy N (Some JNull) = False"
| "truthy N (Some (JBool b)) = b"
| "truthy N (Some (JNum n)) = numberTruthy N n"
| "truthy N (Some (JStr s)) = (s \<noteq> [])"
| "truthy N (Some (JArr xs)) = True"
| "truthy N (Some (JObj ms)) = True"

text \<open>What the program can throw.\<close>

datatype error =
    ApiKeyMissing
  | RequestPathMissing
  | HttpUtilitiesMissing
  | TypeError
  | NetworkError jsstring
  | ApiRequestFailed nat jsval
  | ResponseBodyNull
  | InvalidResponse jsval
  | StreamingError error
  | SyntaxError

definition andThen :: "error + 'a \<Rightarrow> ('a \<Rightarrow> error + 'b) \<Rightarrow> error + 'b" where
  "andThen r f = (case r of Inl e \<Rightarrow> Inl e | Inr x \<Rightarrow> f x)"

text \<open>
  \<^verbatim>\<open>v.name\<close> for the names the program reads (\<^verbatim>\<open>choices\<close>, \<^verbatim>\<open>delta\<close>, \<^verbatim>\<open>message\<close>,
  \<^verbatim>\<open>content\<close>), which no prototype defines: an object gives its own property, any other
  value \<^verbatim>\<open>undefined\<close>, and reading from \<^verbatim>\<open>null\<close> or \<^verbatim>\<open>undefined\<close> throws.
\<close>

fun getProperty :: "jsval \<Rightarrow> jsstring \<Rightarrow> error + jsval" where
  "getProperty None name = Inl TypeError"
| "getProperty (Some JNull) name = Inl TypeError"
| "getProperty (Some (JObj ms)) name = Inr (map_of ms name)"
| "getProperty (Some v) name = Inr None"

text \<open>\<^verbatim>\<open>v[0]\<close>: the first element of an array, the first code unit of a string.\<close>

fun at0 :: "jsval \<Rightarrow> error + jsval" where
  "at0 None = Inl TypeError"
| "at0 (Some JNull) = Inl TypeError"
| "at0 (Some (JArr xs)) = Inr (case xs of [] \<Rightarrow> None | x # _ \<Rightarrow> Some x)"
| "at0 (Some (JStr s)) = Inr (case s of [] \<Rightarrow> None | c # _ \<Rightarrow> Some (JStr [c]))"
| "at0 (Some (JObj ms)) = Inr (map_of ms (str ''0''))"
| "at0 (Some v) = Inr None"

text \<open>
  The text of a value in \<^verbatim>\<open>string + value\<close>. An array joins the texts of its elements
  with commas, \<^verbatim>\<open>null\<close> elements giving the empty text. An object is
  \<^verbatim>\<open>[object Object]\<close>, unless it has a property \<^verbatim>\<open>toString\<close> of its own: that one is
  not a function, and the conversion throws (\<open>None\<close>).
\<close>

fun toText :: "js_engine \<Rightarrow> json \<Rightarrow> jsstring option"
  and joinText :: "js_engine \<Rightarrow> json list \<Rightarrow> jsstring option" where
  "toText N JNull = Some (str ''null'')"
| "toText N (JBool b) = Some (if b then str ''true'' else str ''false'')"
| "toText N (JNum n) = Some (numberText N n)"
| "toText N (JStr s) = Some s"
| "toText N (JArr xs) = joinText N xs"
| "toText N (JObj ms) =
     (if map_of ms (str ''toString'') = None then Some (str ''[object Object]'') else None)"
| "joinText N [] = Some []"
| "joinText N (x # xs) =
     (case (if x = JNull then Some [] else toText N x) of
        None \<Rightarrow> None
      | Some a \<Rightarrow>
          if xs = [] then Some a
          else (case joinText N xs of None \<Rightarrow> None | Some r \<Rightarrow> Some (a @ 44 # r)))"

text \<open>\<^verbatim>\<open>v > 0\<close> and \<^verbatim>\<open>v.length > 0\<close>.\<close>

fun positive :: "js_engine \<Rightarrow> jsval \<Rightarrow> error + bool" where
  "positive N None = Inr False"
| "positive N (Some JNull) = Inr False"
| "positive N (Some (JBool b)) = Inr b"
| "positive N (Some (JNum n)) = Inr (numberPositive N n)"
| "positive N (Some (JStr s)) = Inr (textPositive N s)"
| "positive N (Some v) =
     (case toText N v of None \<Rightarrow> Inl TypeError | Some s \<Rightarrow> Inr (textPositive N s))"

fun lengthPositive :: "js_engine \<Rightarrow> jsval \<Rightarrow> error + bool" where
  "lengthPositive N None = Inl TypeError"
| "lengthPositive N (Some JNull) = Inl TypeError"
| "lengthPositive N (Some (JArr xs)) = Inr (xs \<noteq> [])"
| "lengthPositive N (Some (JStr s)) = Inr (s \<noteq> [])"
| "lengthPositive N (Some (JObj ms)) = positive N (map_of ms (str ''length''))"
| "lengthPositive N (Some v) = Inr False"

section \<open>Tag removal\<close>

text \<open>
  \<^verbatim>\<open>removeTagString.split(',').map(tag => tag.trim()).filter(tag => tag.length > 0)\<close>
\<close>

definition tagsToRemove :: "jsstring \<Rightarrow> jsstring list" where
  "tagsToRemove removeTagString =
     filter (\<lambda>tag. length tag > 0) (map trim (split removeTagString 44))"

text \<open>
  \<^verbatim>\<open>tag.replace(/[-\/\\^$*+?.()|[\]{}]/g, '\\$&')\<close> puts a backslash (92) before every
  character of the class. In the pattern that results, a backslash and the character
  after it stand for that character and every other character for itself, which
  \<open>literal\<close> reads back.
\<close>

definition isRegExpChar :: "nat \<Rightarrow> bool" where
  "isRegExpChar c =
     (c = 45 \<or> c = 47 \<or> c = 92 \<or> c = 94 \<or> c = 36 \<or> c = 42 \<or> c = 43 \<or> c = 63 \<or> c = 46
      \<or> c = 40 \<or> c = 41 \<or> c = 124 \<or> c = 91 \<or> c = 93 \<or> c = 123 \<or> c = 125)"

fun escapeRegExp :: "jsstring \<Rightarrow> jsstring" where
  "escapeRegExp [] = []"
| "escapeRegExp (c # cs) =
     (if isRegExpChar c then 92 # c # escapeRegExp cs else c # escapeRegExp cs)"

fun literal :: "jsstring \<Rightarrow> jsstring" where
  "literal [] = []"
| "literal [c] = [c]"
| "literal (c # d # r) = (if c = 92 then d # literal r else c # literal (d # r))"

text \<open>
  \<^verbatim>\<open>text.replace(regex, '')\<close> with the flag g. \<open>matchAt\<close> gives, for the text from a position
  on, the length of the match of the pattern that starts there, if there is one. The
  scan deletes a match and goes on behind it; the number counts the code units of the
  current match still to delete.
\<close>

fun removeMatches :: "(jsstring \<Rightarrow> nat option) \<Rightarrow> nat \<Rightarrow> jsstring \<Rightarrow> jsstring" where
  "removeMatches matchAt k [] = []"
| "removeMatches matchAt (Suc k) (c # cs) = removeMatches matchAt k cs"
| "removeMatches matchAt 0 (c # cs) =
     (case matchAt (c # cs) of
        None \<Rightarrow> c # removeMatches matchAt 0 cs
      | Some 0 \<Rightarrow> c # removeMatches matchAt 0 cs
      | Some (Suc n) \<Rightarrow> removeMatches matchAt n cs)"

text \<open>
  part_000, lines 69 to 86. The pattern is
  \<^verbatim>\<open>${openingTag}(.*?)${closingTag}|${selfClosingTag}\<close> with the flags g and s: the
  opening tag, the shortest text up to the closing tag, and the closing tag; or else the
  self-closing tag.
\<close>

definition matchTagRemoval :: "jsstring \<Rightarrow> jsstring \<Rightarrow> nat option" where
  "matchTagRemoval openingTag s =
     (let closingTag = replace openingTag (str ''<'') (str ''</'');
          selfClosingTag = replace openingTag (str ''>'') (str ''/>'');
          second = (if startsWith s (literal selfClosingTag)
                    then Some (length (literal selfClosingTag)) else None)
      in if startsWith s (literal openingTag) then
           (case indexOf (drop (length (literal openingTag)) s) (literal closingTag) of
              None \<Rightarrow> second
            | Some j \<Rightarrow> Some (length (literal openingTag) + j + length (literal closingTag)))
         else second)"

definition applyTagRemoval :: "jsstring \<Rightarrow> jsstring \<Rightarrow> jsstring" where
  "applyTagRemoval removeTagString inputText =
     (if removeTagString = [] \<or> inputText = [] then inputText
      else trim (foldl (\<lambda>processedText tag.
                          removeMatches (matchTagRemoval (escapeRegExp tag)) 0 processedText)
                   inputText (tagsToRemove removeTagString)))"

text \<open>
  main.js, lines 74 to 86. The pattern is
  \<^verbatim>\<open>${escapedTag}(?:\s*\/>|>(.*?)<\/${escapedTag.substring(1)}>)\<close> with the flags g and
  s: the escaped tag, then either white space and \<^verbatim>\<open>/>\<close>, or \<^verbatim>\<open>>\<close>, the shortest
  text, \<^verbatim>\<open></\<close>, the escaped tag without its first character, and \<^verbatim>\<open>>\<close>.
\<close>

definition matchRemoveTag :: "jsstring \<Rightarrow> jsstring \<Rightarrow> nat option" where
  "matchRemoveTag escapedTag s =
     (let opening = literal escapedTag;
          closing = str ''</'' @ literal (drop 1 escapedTag) @ str ''>''
      in if startsWith s opening then
           (let r = drop (length opening) s;
                r1 = dropWhile isWhiteSpace r
            in if startsWith r1 (str ''/>'') then Some (length opening + (length r - length r1) + 2)
               else if startsWith r (str ''>'') then
                 (case indexOf (drop 1 r) closing of
                    None \<Rightarrow> None
                  | Some j \<Rightarrow> Some (length opening + 1 + j + length closing))
               else None)
         else None)"

text \<open>
  The source text of that pattern, as the template literal of line 80 builds it.
\<close>

definition tagPattern :: "jsstring \<Rightarrow> jsstring" where
  "tagPattern escapedTag =
     escapedTag @ str ''(?:'' @ [92] @ str ''s*'' @ [92] @ str ''/>|>(.*?)<'' @ [92] @ str ''/''
       @ drop 1 escapedTag @ str ''>)''"

text \<open>
  The body of the \<^verbatim>\<open>forEach\<close>, lines 79 to 81, for one tag. When the escaped tag does not
  start with a backslash, every part of the pattern that comes from the tag is a literal
  and \<open>matchRemoveTag\<close> gives its matches. When it does, the tag starts with a character
  of the class, \<^verbatim>\<open>substring(1)\<close> cuts the backslash off its escape and the character is
  part of the syntax of the pattern: the pattern goes to \<open>regExp\<close> as it is, and the
  \<^verbatim>\<open>SyntaxError\<close> of the constructor is thrown on.
\<close>

definition removeTagMatches :: "js_engine \<Rightarrow> jsstring \<Rightarrow> jsstring \<Rightarrow> error + jsstring" where
  "removeTagMatches N tag processedText =
     (let escapedTag = escapeRegExp tag
      in if startsWith escapedTag [92] then
           (case regExp N (tagPattern escapedTag) of
              None \<Rightarrow> Inl SyntaxError
            | Some withoutMatches \<Rightarrow> Inr (withoutMatches processedText))
         else Inr (removeMatches (matchRemoveTag escapedTag) 0 processedText))"

text \<open>The \<^verbatim>\<open>forEach\<close> over the tags, in their order.\<close>

fun removeTags :: "js_engine \<Rightarrow> jsstring list \<Rightarrow> jsstring \<Rightarrow> error + jsstring" where
  "removeTags N [] processedText = Inr processedText"
| "removeTags N (tag # tags) processedText =
     andThen (removeTagMatches N tag processedText) (removeTags N tags)"

text \<open>main.js, lines 73 to 86.\<close>

definition applyRemoveTag :: "js_engine \<Rightarrow> jsstring \<Rightarrow> jsstring \<Rightarrow> error + jsstring" where
  "applyRemoveTag N removeTagString inputText =
     (if inputText = [] then Inr inputText
      else if removeTagString = [] then Inr (trim inputText)
      else andThen (removeTags N (tagsToRemove removeTagString) inputText)
             (\<lambda>processedText. Inr (trim processedText)))"

section \<open>Configuration\<close>

text \<open>
  The options read from \<^verbatim>\<open>config\<close>. An option the host did not set is \<open>None\<close>
  (\<^verbatim>\<open>undefined\<close>); the language map is a dictionary from language code to display name.
\<close>

record config =
  apiKey :: "jsstring option"
  requestPath :: "jsstring option"
  model :: "jsstring option"
  system_prompt :: "jsstring option"
  user_prompt :: "jsstring option"
  parameters :: "jsstring option"
  removeTag :: "jsstring option"
  use_stream :: "jsstring option"
  language :: "jsstring \<rightharpoonup> jsstring"

text \<open>\<^verbatim>\<open>!x\<close> on an optional string: \<^verbatim>\<open>undefined\<close> and the empty string are falsy.\<close>

definition missing :: "jsstring option \<Rightarrow> bool" where
  "missing x = (x = None \<or> x = Some [])"

text \<open>\<^verbatim>\<open>x || d\<close> on an optional string.\<close>

definition orDefault :: "jsstring option \<Rightarrow> jsstring \<Rightarrow> jsstring" where
  "orDefault x d = (if missing x then d else the x)"

text \<open>
  \<^verbatim>\<open>languageMap[code] || code\<close>: the display name when the map has a non-empty one for
  the code, the code itself otherwise. The map of the model holds the properties of the
  object itself. The lookup of the program goes on to \<^verbatim>\<open>Object.prototype\<close> when the object
  has no property of that name, and finds there a function, or for \<^verbatim>\<open>__proto__\<close> an object,
  under the names \<open>inheritedName\<close> lists: for such a code without an entry of its own the
  program does not substitute a text, and \<open>langName\<close> does not describe it. \<open>knownCode\<close>
  holds of the codes that \<open>langName\<close> describes.
\<close>

definition langName :: "(jsstring \<rightharpoonup> jsstring) \<Rightarrow> jsstring \<Rightarrow> jsstring" where
  "langName languageMap code = orDefault (languageMap code) code"

definition inheritedName :: "jsstring \<Rightarrow> bool" where
  "inheritedName code =
     (code \<in> set [str ''constructor'', str ''hasOwnProperty'', str ''isPrototypeOf'',
                   str ''propertyIsEnumerable'', str ''toLocaleString'', str ''toString'',
                   str ''valueOf'', str ''__proto__'', str ''__defineGetter__'',
                   str ''__defineSetter__'', str ''__lookupGetter__'', str ''__lookupSetter__''])"

definition knownCode :: "(jsstring \<rightharpoonup> jsstring) \<Rightarrow> jsstring \<Rightarrow> bool" where
  "knownCode languageMap code = (languageMap code \<noteq> None \<or> \<not> inheritedName code)"

section \<open>Endpoint\<close>

text \<open>
  part_000, lines 30 to 40: the request path as a string gets the scheme and the suffix.
\<close>

definition normalizePath :: "jsstring \<Rightarrow> jsstring" where
  "normalizePath rp =
     (let p1 = (if \<not> startsWith rp (str ''http://'') \<and> \<not> startsWith rp (str ''https://'')
                then str ''https://'' @ rp else rp)
      in if \<not> endsWith p1 (str ''/chat/completions'')
         then (if endsWith p1 (str ''/'') then p1 @ str ''chat/completions''
               else p1 @ str ''/chat/completions'')
         else p1)"

text \<open>
  main.js, lines 24 to 33, goes through the platform's \<^verbatim>\<open>URL\<close> class, which is not part of
  the repository: the constructor (\<open>None\<close> when it throws), the \<^verbatim>\<open>pathname\<close> getter and
  setter and the \<^verbatim>\<open>href\<close> getter are parameters of the model.
\<close>

record 'u url_class =
  newURL :: "jsstring \<Rightarrow> 'u option"
  pathname :: "'u \<Rightarrow> jsstring"
  setPathname :: "'u \<Rightarrow> jsstring \<Rightarrow> 'u"
  href :: "'u \<Rightarrow> jsstring"

definition apiUrl :: "'u url_class \<Rightarrow> jsstring \<Rightarrow> 'u option" where
  "apiUrl U rp =
     (let p1 = (if \<not> startsWith rp (str ''http://'') \<and> \<not> startsWith rp (str ''https://'')
                then str ''https://'' @ rp else rp)
      in case newURL U p1 of
           None \<Rightarrow> None
         | Some u \<Rightarrow>
             if \<not> endsWith (pathname U u) (str ''/chat/completions'')
             then (let u1 = (if \<not> endsWith (pathname U u) (str ''/'')
                             then setPathname U u (pathname U u @ str ''/'') else u)
                   in Some (setPathname U u1 (pathname U u1 @ str ''chat/completions'')))
             else Some u)"

section \<open>Prompts\<close>

text \<open>
  main.js, lines 36 to 48. \<^verbatim>\<open>detect\<close> may be \<^verbatim>\<open>undefined\<close>; it is then looked up and
  substituted as the text \<^verbatim>\<open>undefined\<close>.
\<close>

definition detectKey :: "jsstring option \<Rightarrow> jsstring" where
  "detectKey detect = (case detect of None \<Rightarrow> str ''undefined'' | Some d \<Rightarrow> d)"

definition systemPrompt :: "config \<Rightarrow> jsstring \<Rightarrow> jsstring \<Rightarrow> jsstring option \<Rightarrow> jsstring" where
  "systemPrompt cfg from to detect =
     (let systemPromptTemplate =
            orDefault (system_prompt cfg) (str ''You are a helpful translation assistant.'');
          targetLang = langName (language cfg) to;
          sourceLang = langName (language cfg) from;
          detectedLang = langName (language cfg) (detectKey detect)
      in replace (replace (replace systemPromptTemplate (str ''$to'') targetLang)
                    (str ''$from'') sourceLang)
           (str ''$detect'') detectedLang)"

definition userPrompt ::
  "config \<Rightarrow> jsstring \<Rightarrow> jsstring \<Rightarrow> jsstring \<Rightarrow> jsstring option \<Rightarrow> jsstring" where
  "userPrompt cfg text from to detect =
     (let userPromptTemplate =
            orDefault (user_prompt cfg)
              (str ''Translate the following text from $from to $to: $text'');
          targetLang = langName (language cfg) to;
          sourceLang = langName (language cfg) from;
          detectedLang = langName (language cfg) (detectKey detect)
      in replace (replace (replace (replace userPromptTemplate (str ''$text'') text)
                             (str ''$to'') targetLang)
                    (str ''$from'') sourceLang)
           (str ''$detect'') detectedLang)"

text \<open>part_000, lines 51 to 61: no \<^verbatim>\<open>$detect\<close>; the system template takes \<^verbatim>\<open>$text\<close>.\<close>

definition systemPrompt0 :: "config \<Rightarrow> jsstring \<Rightarrow> jsstring \<Rightarrow> jsstring \<Rightarrow> jsstring" where
  "systemPrompt0 cfg text from to =
     (let systemPromptTemplate =
            orDefault (system_prompt cfg) (str ''You are a helpful translation assistant.'');
          targetLang = langName (language cfg) to;
          sourceLang = langName (language cfg) from
      in replace (replace (replace systemPromptTemplate (str ''$to'') targetLang)
                    (str ''$from'') sourceLang)
           (str ''$text'') text)"

definition userPrompt0 :: "config \<Rightarrow> jsstring \<Rightarrow> jsstring \<Rightarrow> jsstring \<Rightarrow> jsstring" where
  "userPrompt0 cfg text from to =
     (let userPromptTemplate =
            orDefault (user_prompt cfg)
              (str ''Translate the following text from $from to $to: $text'');
          targetLang = langName (language cfg) to;
          sourceLang = langName (language cfg) from
      in replace (replace (replace userPromptTemplate (str ''$text'') text)
                    (str ''$to'') targetLang)
           (str ''$from'') sourceLang)"

section \<open>Request body\<close>

text \<open>
  main.js, lines 50 to 67, and part_000, lines 42 to 48 and 63 to 101. The body is the
  object the literal builds, property by property in the order written; the serialisation
  of the object for the wire is the platform's.
\<close>

definition messages :: "jsstring \<Rightarrow> jsstring \<Rightarrow> json" where
  "messages systemText userText =
     JArr [JObj [(str ''role'', JStr (str ''system'')), (str ''content'', JStr systemText)],
           JObj [(str ''role'', JStr (str ''user'')), (str ''content'', JStr userText)]]"

definition parsedParameters :: "config \<Rightarrow> json" where
  "parsedParameters cfg =
     (case JSON_parse (orDefault (parameters cfg) (str ''{\"temperature\": 0.1}'')) of
        None \<Rightarrow> JObj [(str ''temperature'', JNum (str ''0.6'')), (str ''top_p'', JNum (str ''0.99'')),
                     (str ''frequency_penalty'', JNum (str ''0'')),
                     (str ''presence_penalty'', JNum (str ''0''))]
      | Some v \<Rightarrow> v)"

definition parsedParameters0 :: "config \<Rightarrow> json" where
  "parsedParameters0 cfg =
     (case JSON_parse (orDefault (parameters cfg) (str ''{\"temperature\": 0.1}'')) of
        None \<Rightarrow> JObj [(str ''temperature'', JNum (str ''0.1''))]
      | Some v \<Rightarrow> v)"

text \<open>
  \<^verbatim>\<open>...parameters\<close> copies the own enumerable properties of the value: those of an
  object, the elements of an array and the code units of a string under their indices,
  and nothing for a number, a boolean or \<^verbatim>\<open>null\<close>.
\<close>

fun decimal :: "nat \<Rightarrow> jsstring" where
  "decimal n = (if n < 10 then [48 + n] else decimal (n div 10) @ [48 + n mod 10])"

fun ownEntries :: "json \<Rightarrow> (jsstring \<times> json) list" where
  "ownEntries (JObj ms) = ms"
| "ownEntries (JArr xs) = zip (map decimal [0..<length xs]) xs"
| "ownEntries (JStr s) = zip (map decimal [0..<length s]) (map (\<lambda>c. JStr [c]) s)"
| "ownEntries v = []"

definition spread :: "json \<Rightarrow> (jsstring \<times> json) list \<Rightarrow> (jsstring \<times> json) list" where
  "spread v obj = foldl (\<lambda>acc (k, x). put k x acc) obj (ownEntries v)"

definition useStream :: "config \<Rightarrow> bool" where
  "useStream cfg = (use_stream cfg = Some (str ''true''))"

definition requestBody ::
  "config \<Rightarrow> jsstring \<Rightarrow> jsstring \<Rightarrow> jsstring \<Rightarrow> jsstring option \<Rightarrow> bool \<Rightarrow> (jsstring \<times> json) list" where
  "requestBody cfg text from to detect hasSetResult =
     put (str ''stream'') (JBool (useStream cfg \<and> hasSetResult))
       (spread (parsedParameters cfg)
          (put (str ''messages'')
             (messages (systemPrompt cfg from to detect) (userPrompt cfg text from to detect))
             (put (str ''model'') (JStr (orDefault (model cfg) (str ''gpt-4o-mini''))) [])))"

definition requestBody0 ::
  "config \<Rightarrow> jsstring \<Rightarrow> jsstring \<Rightarrow> jsstring \<Rightarrow> (jsstring \<times> json) list" where
  "requestBody0 cfg text from to =
     spread (parsedParameters0 cfg)
       (put (str ''stream'') (JBool (useStream cfg))
          (put (str ''messages'')
             (messages (systemPrompt0 cfg text from to) (userPrompt0 cfg text from to))
             (put (str ''model'') (JStr (orDefault (model cfg) (str ''gpt-3.5-turbo''))) [])))"

section \<open>Platform\<close>

text \<open>
  A request as the program hands it to a fetch primitive, and what the primitive gives
  back: a rejection with its cause, or a response. The method, the time limit and the
  response type of a request are constants of the call and are left out. \<open>data\<close> is
  \<^verbatim>\<open>res.data\<close>, and for \<^verbatim>\<open>window.fetch\<close> the text of the body; \<open>reader\<close> is the sequence
  of chunks that \<^verbatim>\<open>response.body.getReader()\<close> delivers before it reports the end, each
  as the text the \<^verbatim>\<open>TextDecoder\<close> makes of it, and \<open>None\<close> when \<^verbatim>\<open>response.body\<close> is
  \<^verbatim>\<open>null\<close>. A stream is a finite list of chunks: a read that fails and a stream that
  never ends are not modelled, and the callback \<^verbatim>\<open>setResult\<close> is taken not to throw.
\<close>

record request =
  url :: jsstring
  headers :: "(jsstring \<times> jsstring) list"
  body :: "(jsstring \<times> json) list"

record response =
  ok :: bool
  status :: nat
  data :: jsval
  reader :: "jsstring list option"

record 'u platform =
  engine :: js_engine
  URL :: "'u url_class"
  windowFetch :: "request \<Rightarrow> jsstring + response"
  tauriFetch :: "request \<Rightarrow> jsstring + response"

text \<open>part_000 takes its fetch from \<^verbatim>\<open>utils.http\<close>, which may be absent.\<close>

record platform0 =
  engine0 :: js_engine
  http :: "(request \<Rightarrow> jsstring + response) option"

text \<open>
  What a call of \<^verbatim>\<open>translate\<close> does: the requests it hands to a fetch primitive, the
  arguments of its calls of \<^verbatim>\<open>setResult\<close> in order, and the value it returns or the error
  it throws.
\<close>

record outcome =
  requests :: "request list"
  shown :: "jsstring list"
  returned :: "error + jsstring"

section \<open>Reading the response\<close>

text \<open>
  The test of main.js, line 168, and of part_000, line 126:
  \<^verbatim>\<open>resultData && resultData.choices && resultData.choices.length > 0 &&
  resultData.choices[0].message && resultData.choices[0].message.content\<close>.
  The result is the content when the test holds and \<open>None\<close> when it does not.
\<close>

definition messageContent :: "js_engine \<Rightarrow> jsval \<Rightarrow> error + jsval" where
  "messageContent N resultData =
     (if \<not> truthy N resultData then Inr None
      else andThen (getProperty resultData (str ''choices'')) (\<lambda>choices.
        if \<not> truthy N choices then Inr None
        else andThen (lengthPositive N choices) (\<lambda>nonEmpty.
          if \<not> nonEmpty then Inr None
          else andThen (at0 choices) (\<lambda>first.
            andThen (getProperty first (str ''message'')) (\<lambda>message.
              if \<not> truthy N message then Inr None
              else andThen (getProperty message (str ''content'')) (\<lambda>content.
                if truthy N content then Inr content else Inr None))))))"

text \<open>\<^verbatim>\<open>content.trim()\<close>: only a string has the method.\<close>

fun callTrim :: "jsval \<Rightarrow> error + jsstring" where
  "callTrim (Some (JStr s)) = Inr (trim s)"
| "callTrim v = Inl TypeError"

text \<open>main.js, lines 166 to 177.\<close>

definition bufferedResult :: "js_engine \<Rightarrow> jsstring \<Rightarrow> response \<Rightarrow> error + jsstring" where
  "bufferedResult N removeTagString res =
     (if ok res then
        andThen (messageContent N (data res)) (\<lambda>content.
          if content \<noteq> None
          then andThen (callTrim content) (\<lambda>translatedText.
                 applyRemoveTag N removeTagString translatedText)
          else Inl (InvalidResponse (data res)))
      else Inl (ApiRequestFailed (status res) (data res)))"

text \<open>
  The test of main.js, line 130:
  \<^verbatim>\<open>parsed.choices && parsed.choices[0] && parsed.choices[0].delta &&
  parsed.choices[0].delta.content\<close>.
\<close>

definition deltaContent :: "js_engine \<Rightarrow> json \<Rightarrow> error + jsval" where
  "deltaContent N parsed =
     andThen (getProperty (Some parsed) (str ''choices'')) (\<lambda>choices.
       if \<not> truthy N choices then Inr None
       else andThen (at0 choices) (\<lambda>first.
         if \<not> truthy N first then Inr None
         else andThen (getProperty first (str ''delta'')) (\<lambda>delta.
           if \<not> truthy N delta then Inr None
           else andThen (getProperty delta (str ''content'')) (\<lambda>content.
             if truthy N content then Inr content else Inr None))))"

text \<open>
  The state of the streaming loops: the text accumulated and the arguments of the calls
  of \<^verbatim>\<open>setResult\<close> made so far.
\<close>

record stream_state =
  fullContent :: jsstring
  calls :: "jsstring list"

text \<open>
  main.js, lines 124 to 139, for one line. Whatever is thrown inside the \<^verbatim>\<open>try\<close> is
  caught and logged, and the loop goes on with the state as it is at the throw: when it
  is \<^verbatim>\<open>applyRemoveTag\<close> that throws, the content is appended already and \<^verbatim>\<open>setResult\<close> is
  not called.
\<close>

definition processLine ::
  "js_engine \<Rightarrow> jsstring \<Rightarrow> stream_state \<Rightarrow> jsstring \<Rightarrow> stream_state" where
  "processLine N removeTagString st line =
     (if startsWith line (str ''data: '') then
        (let dataContent = trim (drop 6 line)
         in if dataContent = str ''[DONE]'' then st
            else
              (case JSON_parse dataContent of
                 None \<Rightarrow> st
               | Some parsed \<Rightarrow>
                   (case deltaContent N parsed of
                      Inl e \<Rightarrow> st
                    | Inr None \<Rightarrow> st
                    | Inr (Some content) \<Rightarrow>
                        (case toText N content of
                           None \<Rightarrow> st
                         | Some deltaText \<Rightarrow>
                             (case applyRemoveTag N removeTagString (fullContent st @ deltaText) of
                                Inl e \<Rightarrow>
                                  \<lparr>fullContent = fullContent st @ deltaText, calls = calls st\<rparr>
                              | Inr cleaned \<Rightarrow>
                                  \<lparr>fullContent = fullContent st @ deltaText,
                                   calls = calls st @ [cleaned @ str ''...'']\<rparr>)))))
      else st)"

fun processLines ::
  "js_engine \<Rightarrow> jsstring \<Rightarrow> stream_state \<Rightarrow> jsstring list \<Rightarrow> stream_state" where
  "processLines N removeTagString st [] = st"
| "processLines N removeTagString st (line # lines) =
     processLines N removeTagString (processLine N removeTagString st line) lines"

text \<open>
  main.js, lines 112 to 141: every chunk is appended to the buffer, the buffer is split
  at the line feeds (10), the last piece stays in the buffer and the others are processed.
\<close>

fun readLoop ::
  "js_engine \<Rightarrow> jsstring \<Rightarrow> stream_state \<Rightarrow> jsstring \<Rightarrow> jsstring list \<Rightarrow> stream_state" where
  "readLoop N removeTagString st chunkBuffer [] = st"
| "readLoop N removeTagString st chunkBuffer (chunk # chunks) =
     readLoop N removeTagString
       (processLines N removeTagString st (butlast (split (chunkBuffer @ chunk) 10)))
       (last (split (chunkBuffer @ chunk) 10)) chunks"

text \<open>
  main.js, lines 107 to 145, when nothing is thrown outside the inner \<^verbatim>\<open>try\<close>: the calls
  of \<^verbatim>\<open>setResult\<close> and the value returned. The last \<^verbatim>\<open>applyRemoveTag\<close> is outside of it, and
  what it throws ends the decoding.
\<close>

definition readStream ::
  "js_engine \<Rightarrow> jsstring \<Rightarrow> jsstring list \<Rightarrow> error + (jsstring list \<times> jsstring)" where
  "readStream N removeTagString chunks =
     (let st = readLoop N removeTagString \<lparr>fullContent = [], calls = []\<rparr> [] chunks
      in andThen (applyRemoveTag N removeTagString (fullContent st)) (\<lambda>finalResult.
           Inr (calls st @ [finalResult], finalResult)))"

text \<open>
  part_000, line 160: \<^verbatim>\<open>parsedData.choices?.[0]?.delta?.content\<close>. The chain stops at
  \<^verbatim>\<open>null\<close> and \<^verbatim>\<open>undefined\<close>, with the value \<^verbatim>\<open>undefined\<close>.
\<close>

definition nullish :: "jsval \<Rightarrow> bool" where
  "nullish v = (v = None \<or> v = Some JNull)"

definition deltaContent0 :: "json \<Rightarrow> error + jsval" where
  "deltaContent0 parsedData =
     andThen (getProperty (Some parsedData) (str ''choices'')) (\<lambda>choices.
       if nullish choices then Inr None
       else andThen (at0 choices) (\<lambda>first.
         if nullish first then Inr None
         else andThen (getProperty first (str ''delta'')) (\<lambda>delta.
           if nullish delta then Inr None
           else getProperty delta (str ''content''))))"

text \<open>part_000, lines 157 to 176, for the payload of one data line.\<close>

definition processData ::
  "js_engine \<Rightarrow> jsstring \<Rightarrow> bool \<Rightarrow> stream_state \<Rightarrow> jsstring \<Rightarrow> stream_state" where
  "processData N removeTagString hasSetResult st jsonData =
     (case JSON_parse jsonData of
        None \<Rightarrow> st
      | Some parsedData \<Rightarrow>
          (case deltaContent0 parsedData of
             Inl e \<Rightarrow> st
           | Inr None \<Rightarrow> st
           | Inr (Some delta) \<Rightarrow>
               if truthy N (Some delta) then
                 (case toText N delta of
                    None \<Rightarrow> st
                  | Some deltaText \<Rightarrow>
                      \<lparr>fullContent = fullContent st @ deltaText,
                       calls = (if hasSetResult
                                then calls st @ [applyTagRemoval removeTagString
                                                   (fullContent st @ deltaText)]
                                else calls st)\<rparr>)
               else st))"

text \<open>part_000, lines 144 to 178: the loop over the lines, left at the terminator.\<close>

fun processLines0 ::
  "js_engine \<Rightarrow> jsstring \<Rightarrow> bool \<Rightarrow> stream_state \<Rightarrow> jsstring list \<Rightarrow> stream_state" where
  "processLines0 N removeTagString hasSetResult st [] = st"
| "processLines0 N removeTagString hasSetResult st (line # lines) =
     (if trim line = [] then processLines0 N removeTagString hasSetResult st lines
      else if startsWith (trim line) (str ''data:'') then
        (if trim (drop 5 (trim line)) = str ''[DONE]'' then st
         else processLines0 N removeTagString hasSetResult
                (processData N removeTagString hasSetResult st (trim (drop 5 (trim line)))) lines)
      else processLines0 N removeTagString hasSetResult st lines)"

text \<open>part_000, lines 137 to 195: the calls of \<^verbatim>\<open>setResult\<close> and the value returned.\<close>

definition readText ::
  "js_engine \<Rightarrow> jsstring \<Rightarrow> bool \<Rightarrow> jsstring \<Rightarrow> jsstring list \<times> jsstring" where
  "readText N removeTagString hasSetResult rawResponseText =
     (let st = processLines0 N removeTagString hasSetResult \<lparr>fullContent = [], calls = []\<rparr>
                 (splitLines rawResponseText);
          finalResult = applyTagRemoval removeTagString (fullContent st)
      in if finalResult = [] \<and> fullContent st = [] then (calls st, [])
         else if hasSetResult then (calls st @ [finalResult], finalResult)
         else (calls st, finalResult))"

section \<open>translate\<close>

text \<open>main.js. \<open>hasSetResult\<close> says whether the host passed the callback.\<close>

definition translate ::
  "'u platform \<Rightarrow> jsstring \<Rightarrow> jsstring \<Rightarrow> jsstring \<Rightarrow> config \<Rightarrow> bool \<Rightarrow> jsstring option \<Rightarrow> outcome" where
  "translate P text from to cfg hasSetResult detect =
     (if missing (apiKey cfg) then \<lparr>requests = [], shown = [], returned = Inl ApiKeyMissing\<rparr>
      else if missing (requestPath cfg)
        then \<lparr>requests = [], shown = [], returned = Inl RequestPathMissing\<rparr>
      else
        (case apiUrl (URL P) (the (requestPath cfg)) of
           None \<Rightarrow> \<lparr>requests = [], shown = [], returned = Inl TypeError\<rparr>
         | Some u \<Rightarrow>
             (let removeTagString = orDefault (removeTag cfg) (str ''<think>,<help>'');
                  req = \<lparr>url = href (URL P) u,
                         headers = [(str ''Content-Type'', str ''application/json''),
                                    (str ''Authorization'', str ''Bearer '' @ the (apiKey cfg))],
                         body = requestBody cfg text from to detect hasSetResult\<rparr>
              in if useStream cfg \<and> hasSetResult then
                   (case windowFetch P req of
                      Inl cause \<Rightarrow>
                        \<lparr>requests = [req], shown = [],
                         returned = Inl (StreamingError (NetworkError cause))\<rparr>
                    | Inr res \<Rightarrow>
                        if \<not> ok res then
                          \<lparr>requests = [req], shown = [],
                           returned = Inl (StreamingError (ApiRequestFailed (status res) (data res)))\<rparr>
                        else
                          (case reader res of
                             None \<Rightarrow>
                               \<lparr>requests = [req], shown = [],
                                returned = Inl (StreamingError ResponseBodyNull)\<rparr>
                           | Some chunks \<Rightarrow>
                               (case readStream (engine P) removeTagString chunks of
                                  Inl e \<Rightarrow>
                                    \<lparr>requests = [req],
                                     shown = calls (readLoop (engine P) removeTagString
                                                      \<lparr>fullContent = [], calls = []\<rparr> [] chunks),
                                     returned = Inl (StreamingError e)\<rparr>
                                | Inr (cs, finalResult) \<Rightarrow>
                                    \<lparr>requests = [req], shown = cs, returned = Inr finalResult\<rparr>)))
                 else
                   (case tauriFetch P req of
                      Inl cause \<Rightarrow>
                        \<lparr>requests = [req], shown = [], returned = Inl (NetworkError cause)\<rparr>
                    | Inr res \<Rightarrow>
                        \<lparr>requests = [req], shown = [],
                         returned = bufferedResult (engine P) removeTagString res\<rparr>))))"

text \<open>part_000, lines 121 to 195, once the response is there and its status is a success.\<close>

definition processResponse0 ::
  "js_engine \<Rightarrow> jsstring \<Rightarrow> bool \<Rightarrow> bool \<Rightarrow> response \<Rightarrow> jsstring list \<times> (error + jsstring)" where
  "processResponse0 N removeTagString streaming hasSetResult res =
     (if \<not> streaming then
        (case andThen (messageContent N (data res)) (\<lambda>content.
                if content \<noteq> None then callTrim content
                else Inl (InvalidResponse (data res))) of
           Inl e \<Rightarrow> ([], Inl e)
         | Inr rawTranslatedText \<Rightarrow>
             (if hasSetResult then [applyTagRemoval removeTagString rawTranslatedText] else [],
              Inr (applyTagRemoval removeTagString rawTranslatedText)))
      else
        (case data res of
           Some (JStr rawResponseText) \<Rightarrow>
             (fst (readText N removeTagString hasSetResult rawResponseText),
              Inr (snd (readText N removeTagString hasSetResult rawResponseText)))
         | _ \<Rightarrow> ([], Inl TypeError)))"

text \<open>part_000.\<close>

definition translate0 ::
  "platform0 \<Rightarrow> jsstring \<Rightarrow> jsstring \<Rightarrow> jsstring \<Rightarrow> config \<Rightarrow> bool \<Rightarrow> outcome" where
  "translate0 P text from to cfg hasSetResult =
     (case http P of
        None \<Rightarrow> \<lparr>requests = [], shown = [], returned = Inl HttpUtilitiesMissing\<rparr>
      | Some fetch \<Rightarrow>
          if missing (apiKey cfg) then \<lparr>requests = [], shown = [], returned = Inl ApiKeyMissing\<rparr>
          else if missing (requestPath cfg)
            then \<lparr>requests = [], shown = [], returned = Inl RequestPathMissing\<rparr>
          else
            (let removeTagString = orDefault (removeTag cfg) (str ''<think>,<help>'');
                 req = \<lparr>url = normalizePath (the (requestPath cfg)),
                        headers = [(str ''Authorization'', str ''Bearer '' @ the (apiKey cfg))],
                        body = requestBody0 cfg text from to\<rparr>
             in case fetch req of
                  Inl cause \<Rightarrow> \<lparr>requests = [req], shown = [], returned = Inl (NetworkError cause)\<rparr>
                | Inr res \<Rightarrow>
                    if \<not> ok res then
                      \<lparr>requests = [req], shown = [],
                       returned = Inl (ApiRequestFailed (status res) (data res))\<rparr>
                    else
                      \<lparr>requests = [req],
                       shown = fst (processResponse0 (engine0 P) removeTagString (useStream cfg)
                                      hasSetResult res),
                       returned = snd (processResponse0 (engine0 P) removeTagString
                                         (useStream cfg) hasSetResult res)\<rparr>))"

section \<open>A URL class without canonicalisation\<close>

text \<open>
  The examples below need some URL class to run main.js on. This one reads a string
  \<^verbatim>\<open>http(s)://authority/path?query#fragment\<close> as the triple of its origin, its path and
  what follows the path, and changes nothing in any of them.
\<close>

definition plainURL :: "(jsstring \<times> jsstring \<times> jsstring) url_class" where
  "plainURL =
     \<lparr>newURL = (\<lambda>s.
        if startsWith s (str ''http://'') \<or> startsWith s (str ''https://'') then
          (let n = (if startsWith s (str ''http://'') then 7 else 8);
               authority = takeWhile (\<lambda>c. c \<noteq> 47 \<and> c \<noteq> 63 \<and> c \<noteq> 35) (drop n s);
               r1 = dropWhile (\<lambda>c. c \<noteq> 47 \<and> c \<noteq> 63 \<and> c \<noteq> 35) (drop n s);
               p = takeWhile (\<lambda>c. c \<noteq> 63 \<and> c \<noteq> 35) r1;
               r2 = dropWhile (\<lambda>c. c \<noteq> 63 \<and> c \<noteq> 35) r1
           in if authority = [] then None
              else Some (take n s @ authority, if p = [] then str ''/'' else p, r2))
        else None),
      pathname = (\<lambda>(origin, p, r). p),
      setPathname = (\<lambda>(origin, p, r) p'. (origin, p', r)),
      href = (\<lambda>(origin, p, r). origin @ p @ r)\<rparr>"

section \<open>Inputs of the examples\<close>

text \<open>
  No number occurs in the examples, and no tag that starts with a character of the
  class; any engine serves them.
\<close>

definition exampleEngine :: js_engine where
  "exampleEngine =
     \<lparr>numberTruthy = (\<lambda>n. True), numberText = (\<lambda>n. n), numberPositive = (\<lambda>n. True),
      textPositive = (\<lambda>s. False), regExp = (\<lambda>pattern. None)\<rparr>"

definition exampleConfig :: config where
  "exampleConfig =
     \<lparr>apiKey = Some (str ''sk-1''), requestPath = Some (str ''https://h/v1''), model = None,
      system_prompt = None, user_prompt = None, parameters = None, removeTag = None,
      use_stream = None, language = [str ''en'' \<mapsto> str ''English'']\<rparr>"

text \<open>A platform whose fetch primitives answer every request with the given response.\<close>

definition examplePlatform :: "response \<Rightarrow> (jsstring \<times> jsstring \<times> jsstring) platform" where
  "examplePlatform res =
     \<lparr>engine = exampleEngine, URL = plainURL, windowFetch = (\<lambda>req. Inr res),
      tauriFetch = (\<lambda>req. Inr res)\<rparr>"

definition examplePlatform0 :: "response \<Rightarrow> platform0" where
  "examplePlatform0 res = \<lparr>engine0 = exampleEngine, http = Some (\<lambda>req. Inr res)\<rparr>"

text \<open>The three chunks of the streaming example; 10 is the line feed that ends each.\<close>

definition helloChunks :: "jsstring list" where
  "helloChunks =
     [str ''data: {\"choices\":[{\"delta\":{\"content\":\"Hel\"}}]}'' @ [10],
      str ''data: {\"choices\":[{\"delta\":{\"content\":\"lo\"}}]}'' @ [10],
      str ''data: [DONE]'' @ [10]]"

text \<open>The example with the terminator in front of the second delta.\<close>

definition chunksPastTerminator :: "jsstring list" where
  "chunksPastTerminator =
     [str ''data: {\"choices\":[{\"delta\":{\"content\":\"Hel\"}}]}'' @ [10],
      str ''data: [DONE]'' @ [10],
      str ''data: {\"choices\":[{\"delta\":{\"content\":\"lo\"}}]}'' @ [10]]"

text \<open>The response body \<^verbatim>\<open>{choices:[{message:{content: c}}]}\<close>.\<close>

definition completion :: "jsstring \<Rightarrow> json" where
  "completion c =
     JObj [(str ''choices'', JArr [JObj [(str ''message'', JObj [(str ''content'', JStr c)])]])]"

text \<open>
  A response body as a service sends it, with an identifier, an index, a role and a reason
  beside the content, which is the empty string.
\<close>

definition emptyCompletion :: json where
  "emptyCompletion =
     JObj [(str ''id'', JStr (str ''c1'')),
           (str ''choices'',
            JArr [JObj [(str ''index'', JNum (str ''0'')),
                        (str ''message'', JObj [(str ''role'', JStr (str ''assistant'')),
                                                 (str ''content'', JStr [])]),
                        (str ''finish_reason'', JStr (str ''stop''))]])]"

section \<open>Well-formed streams, as the specification words them\<close>








section \<open>First-match substitution, as the specification words it\<close>

text \<open>
  The specification describes the rendering as sequential first-match replacement of
  literal placeholders. \<open>substituteFirst\<close> is that operation, written without reference
  to the program: going through the text from the left, the first place where the
  placeholder stands gets the value, and the text behind it is kept as it is.
  \<open>plain\<close> holds of a value in which no dollar sign (36) is followed by a dollar sign, an
  ampersand (38), a backquote (96) or a quote (39).
\<close>

fun substituteFirst :: "jsstring \<Rightarrow> jsstring \<Rightarrow> jsstring \<Rightarrow> jsstring" where
  "substituteFirst [] pat v = (if pat = [] then v else [])"
| "substituteFirst (c # cs) pat v =
     (if startsWith (c # cs) pat then v @ drop (length pat) (c # cs)
      else c # substituteFirst cs pat v)"

fun plain :: "jsstring \<Rightarrow> bool" where
  "plain [] = True"
| "plain [c] = True"
| "plain (c # d # r) =
     (if c = 36 \<and> (d = 36 \<or> d = 38 \<or> d = 96 \<or> d = 39) then False else plain (d # r))"

section \<open>Properties of the strings\<close>

lemma startsWith_prefix: "startsWith s p = prefix p s"
  by (induction s p rule: startsWith.induct) auto

lemma endsWith_suffix: "endsWith s p = suffix p s"
  by (simp add: endsWith_def startsWith_prefix suffix_to_prefix)

lemma endsWith_append: "endsWith (s @ p) p"
  by (simp add: endsWith_suffix suffix_def)

lemma endsWith_slash:
  "endsWith s (str ''/'') \<Longrightarrow> endsWith (s @ str ''chat/completions'') (str ''/chat/completions'')"
  by (auto simp: endsWith_suffix suffix_def str_def)

section \<open>The endpoint\<close>


lemma normalizePath_scheme:
  "startsWith (normalizePath p) (str ''http://'') \<or> startsWith (normalizePath p) (str ''https://'')"
  by (auto simp: normalizePath_def Let_def startsWith_prefix)

lemma normalizePath_suffix: "endsWith (normalizePath p) (str ''/chat/completions'')"
  by (auto simp: normalizePath_def Let_def endsWith_append endsWith_slash)






section \<open>translate in buffered mode\<close>

lemma translate_buffered:
  assumes "\<not> missing (apiKey cfg)" "\<not> missing (requestPath cfg)"
    and "\<not> (useStream cfg \<and> hasSetResult)"
    and "apiUrl (URL P) (the (requestPath cfg)) \<noteq> None"
    and "\<forall>req. tauriFetch P req = Inr res"
  shows "shown (translate P text from to cfg hasSetResult detect) = []
       \<and> returned (translate P text from to cfg hasSetResult detect)
           = bufferedResult (engine P) (orDefault (removeTag cfg) (str ''<think>,<help>'')) res"
  using assms by (auto simp: translate_def Let_def)

lemma translate0_buffered:
  assumes "\<not> missing (apiKey cfg)" "\<not> missing (requestPath cfg)" "\<not> useStream cfg"
    and "http P = Some fetch"
    and "\<forall>req. fetch req = Inr res" "ok res"
  shows "shown (translate0 P text from to cfg hasSetResult)
           = fst (processResponse0 (engine0 P) (orDefault (removeTag cfg) (str ''<think>,<help>''))
                    False hasSetResult res)
       \<and> returned (translate0 P text from to cfg hasSetResult)
           = snd (processResponse0 (engine0 P) (orDefault (removeTag cfg) (str ''<think>,<help>''))
                    False hasSetResult res)"
  using assms by (auto simp: translate0_def Let_def)

lemma exampleConfig_ready:
  "\<not> missing (apiKey exampleConfig)" "\<not> missing (requestPath exampleConfig)"
  "\<not> useStream exampleConfig" "the (requestPath exampleConfig) = str ''https://h/v1''"
  "orDefault (removeTag exampleConfig) (str ''<think>,<help>'') = str ''<think>,<help>''"
  by (simp_all add: exampleConfig_def missing_def useStream_def orDefault_def str_def)

lemma exampleConfig_streaming_ready:
  "\<not> missing (apiKey (exampleConfig\<lparr>use_stream := Some (str ''true'')\<rparr>))"
  "\<not> missing (requestPath (exampleConfig\<lparr>use_stream := Some (str ''true'')\<rparr>))"
  "useStream (exampleConfig\<lparr>use_stream := Some (str ''true'')\<rparr>)"
  "the (requestPath (exampleConfig\<lparr>use_stream := Some (str ''true'')\<rparr>)) = str ''https://h/v1''"
  "orDefault (removeTag (exampleConfig\<lparr>use_stream := Some (str ''true'')\<rparr>))
     (str ''<think>,<help>'') = str ''<think>,<help>''"
  by (simp_all add: exampleConfig_def missing_def useStream_def orDefault_def str_def)

lemma plainURL_example:
  "apiUrl plainURL (str ''https://h/v1'') = Some (str ''https://h'', str ''/v1/chat/completions'', [])"
  by (simp add: apiUrl_def plainURL_def endsWith_def str_def Let_def)

section \<open>Tag removal on the default tags\<close>

text \<open>
  Claim C2 on main.js. With the default tags the pattern for \<^verbatim>\<open><think>\<close> is
  \<^verbatim>\<open><think>(?:\s*\/>|>(.*?)<\/think>>)\<close>: after the whole tag, closing bracket included,
  it asks for \<^verbatim>\<open>/>\<close> or for a second \<^verbatim>\<open>>\<close>. Neither \<^verbatim>\<open><think>ignore</think>\<close> nor
  \<^verbatim>\<open><help/>\<close> matches, and the text comes back as it went in; a call of \<^verbatim>\<open>translate\<close>
  with the default configuration that receives the text as the content of the response
  returns it with the tags.
\<close>

theorem applyRemoveTag_keeps_default_tags:
  "applyRemoveTag N (str ''<think>,<help>'') (str ''<think>ignore</think>Hello<help/>'')
     = Inr (str ''<think>ignore</think>Hello<help/>'')
   \<and> returned (translate
        (examplePlatform
           \<lparr>ok = True, status = 200,
            data = Some (completion (str ''<think>ignore</think>Hello<help/>'')), reader = None\<rparr>)
        (str ''hi'') (str ''zh'') (str ''en'') exampleConfig False None)
     = Inr (str ''<think>ignore</think>Hello<help/>'')"
proof -
  have a: "applyRemoveTag N (str ''<think>,<help>'') (str ''<think>ignore</think>Hello<help/>'')
     = Inr (str ''<think>ignore</think>Hello<help/>'')" for N
    by (simp add: applyRemoveTag_def removeTagMatches_def andThen_def tagsToRemove_def
        matchRemoveTag_def trim_def isWhiteSpace_def isRegExpChar_def str_def Let_def)
  have b: "trim (str ''<think>ignore</think>Hello<help/>'') = str ''<think>ignore</think>Hello<help/>''"
    by (simp add: trim_def isWhiteSpace_def str_def)
  have c: "bufferedResult exampleEngine (str ''<think>,<help>'')
        \<lparr>ok = True, status = 200,
         data = Some (completion (str ''<think>ignore</think>Hello<help/>'')), reader = None\<rparr>
     = Inr (str ''<think>ignore</think>Hello<help/>'')"
    unfolding bufferedResult_def messageContent_def completion_def
    by (simp add: andThen_def a b) (simp add: str_def)
  have d: "returned (translate
        (examplePlatform
           \<lparr>ok = True, status = 200,
            data = Some (completion (str ''<think>ignore</think>Hello<help/>'')), reader = None\<rparr>)
        (str ''hi'') (str ''zh'') (str ''en'') exampleConfig False None)
     = bufferedResult
         (engine (examplePlatform
           \<lparr>ok = True, status = 200,
            data = Some (completion (str ''<think>ignore</think>Hello<help/>'')), reader = None\<rparr>))
         (orDefault (removeTag exampleConfig) (str ''<think>,<help>''))
         \<lparr>ok = True, status = 200,
          data = Some (completion (str ''<think>ignore</think>Hello<help/>'')), reader = None\<rparr>"
    by (intro conjunct2 [OF translate_buffered])
      (simp_all add: exampleConfig_ready plainURL_example examplePlatform_def)
  show ?thesis
    using a c d by (simp add: exampleConfig_ready examplePlatform_def)
qed

text \<open>The same input in part_000: both forms are removed.\<close>

lemma applyTagRemoval_default_tags:
  "applyTagRemoval (str ''<think>,<help>'') (str ''<think>ignore</think>Hello<help/>'')
     = str ''Hello''"
  by (simp add: applyTagRemoval_def tagsToRemove_def matchTagRemoval_def replace_def trim_def
      isWhiteSpace_def isRegExpChar_def str_def Let_def)

section \<open>Missing configuration\<close>

lemma translate_missing:
  "missing (apiKey cfg) \<or> missing (requestPath cfg) \<Longrightarrow>
   translate P text from to cfg hasSetResult detect
     = \<lparr>requests = [], shown = [],
        returned = Inl (if missing (apiKey cfg) then ApiKeyMissing else RequestPathMissing)\<rparr>"
  by (auto simp: translate_def)

lemma translate0_missing:
  "missing (apiKey cfg) \<or> missing (requestPath cfg) \<Longrightarrow>
   translate0 P text from to cfg hasSetResult
     = \<lparr>requests = [], shown = [],
        returned = Inl (if http P = None then HttpUtilitiesMissing
                        else if missing (apiKey cfg) then ApiKeyMissing
                        else RequestPathMissing)\<rparr>"
  by (auto simp: translate0_def split: option.splits)

text \<open>
  Claim C7, as stated, fails in part_000: the check of the host's HTTP utilities comes
  before the checks of the configuration, and on a host without them that check's error is
  thrown, whatever the configuration lacks.
\<close>

theorem translate0_utilities_checked_first:
  "returned (translate0 \<lparr>engine0 = exampleEngine, http = None\<rparr> (str ''hi'') (str ''zh'')
      (str ''en'') (exampleConfig\<lparr>apiKey := None\<rparr>) False) = Inl HttpUtilitiesMissing"
  by (simp add: translate0_def)

text \<open>
  Claim C7, amended. When the API key or the request path is missing (absent or empty),
  \<^verbatim>\<open>translate\<close> hands no request to any fetch primitive, calls \<^verbatim>\<open>setResult\<close> never, and
  throws: in main.js the error of the missing API key, or else that of the missing
  request path; in part_000 the same, unless the host's HTTP utilities are absent, in
  which case it throws the error of that earlier check.
\<close>

theorem missing_configuration:
  "(missing (apiKey cfg) \<or> missing (requestPath cfg) \<longrightarrow>
      requests (translate P text from to cfg hasSetResult detect) = []
      \<and> shown (translate P text from to cfg hasSetResult detect) = []
      \<and> returned (translate P text from to cfg hasSetResult detect)
          = Inl (if missing (apiKey cfg) then ApiKeyMissing else RequestPathMissing))
   \<and> (missing (apiKey cfg) \<or> missing (requestPath cfg) \<longrightarrow>
      requests (translate0 P0 text from to cfg hasSetResult) = []
      \<and> shown (translate0 P0 text from to cfg hasSetResult) = []
      \<and> returned (translate0 P0 text from to cfg hasSetResult)
          = Inl (if http P0 = None then HttpUtilitiesMissing
                 else if missing (apiKey cfg) then ApiKeyMissing else RequestPathMissing))"
  by (simp add: translate_missing translate0_missing)

theorem missing_configuration_witness:
  "requests (translate (examplePlatform \<lparr>ok = True, status = 200, data = None, reader = None\<rparr>)
      (str ''hi'') (str ''zh'') (str ''en'') (exampleConfig\<lparr>requestPath := Some []\<rparr>) True None) = []
   \<and> returned (translate (examplePlatform \<lparr>ok = True, status = 200, data = None, reader = None\<rparr>)
      (str ''hi'') (str ''zh'') (str ''en'') (exampleConfig\<lparr>requestPath := Some []\<rparr>) True None)
       = Inl RequestPathMissing
   \<and> requests (translate0 (examplePlatform0 \<lparr>ok = True, status = 200, data = None, reader = None\<rparr>)
      (str ''hi'') (str ''zh'') (str ''en'') (exampleConfig\<lparr>requestPath := Some []\<rparr>) True) = []
   \<and> returned (translate0 (examplePlatform0 \<lparr>ok = True, status = 200, data = None, reader = None\<rparr>)
      (str ''hi'') (str ''zh'') (str ''en'') (exampleConfig\<lparr>requestPath := Some []\<rparr>) True)
       = Inl RequestPathMissing"
  using missing_configuration
    [of "exampleConfig\<lparr>requestPath := Some []\<rparr>"
      "examplePlatform \<lparr>ok = True, status = 200, data = None, reader = None\<rparr>"
      "str ''hi''" "str ''zh''" "str ''en''" True None
      "examplePlatform0 \<lparr>ok = True, status = 200, data = None, reader = None\<rparr>"]
  by (simp add: exampleConfig_def examplePlatform0_def missing_def str_def)

section \<open>The request body\<close>

lemma map_of_put: "map_of (put k v m) k' = (if k' = k then Some v else map_of m k')"
  by (induction m) auto

lemma map_of_spread_entries:
  "map_of (foldl (\<lambda>acc (k, x). put k x acc) obj es) k
     = (case map_of (rev es) k of None \<Rightarrow> map_of obj k | Some v \<Rightarrow> Some v)"
  by (induction es arbitrary: obj)
    (auto simp: map_of_put map_add_def split: option.splits)

text \<open>After the spread a key has the value the spread value gives it, if it gives one.\<close>

lemma map_of_spread:
  "map_of (spread v obj) k
     = (case map_of (rev (ownEntries v)) k of None \<Rightarrow> map_of obj k | Some x \<Rightarrow> Some x)"
  by (simp add: spread_def map_of_spread_entries)

lemma requests_translate:
  "list_all (\<lambda>req. body req = requestBody cfg text from to detect hasSetResult)
     (requests (translate P text from to cfg hasSetResult detect))"
  by (auto simp: translate_def Let_def split: if_splits option.splits sum.splits prod.splits)

lemma requests_translate0:
  "list_all (\<lambda>req. body req = requestBody0 cfg text from to)
     (requests (translate0 P text from to cfg hasSetResult))"
  by (auto simp: translate0_def Let_def split: if_splits option.splits sum.splits prod.splits)

lemma requestBody_stream:
  "map_of (requestBody cfg text from to detect hasSetResult) (str ''stream'')
     = Some (JBool (useStream cfg \<and> hasSetResult))"
  by (simp add: requestBody_def map_of_put)

lemma requestBody_messages:
  "map_of (requestBody cfg text from to detect hasSetResult) (str ''messages'')
     = (case map_of (rev (ownEntries (parsedParameters cfg))) (str ''messages'') of
          None \<Rightarrow> Some (messages (systemPrompt cfg from to detect)
                         (userPrompt cfg text from to detect))
        | Some v \<Rightarrow> Some v)"
  by (simp add: requestBody_def map_of_put map_of_spread str_def split: option.splits)

lemma requestBody_model:
  "map_of (requestBody cfg text from to detect hasSetResult) (str ''model'')
     = (case map_of (rev (ownEntries (parsedParameters cfg))) (str ''model'') of
          None \<Rightarrow> Some (JStr (orDefault (model cfg) (str ''gpt-4o-mini'')))
        | Some v \<Rightarrow> Some v)"
  by (simp add: requestBody_def map_of_put map_of_spread str_def split: option.splits)

lemma requestBody0_messages:
  "map_of (requestBody0 cfg text from to) (str ''messages'')
     = (case map_of (rev (ownEntries (parsedParameters0 cfg))) (str ''messages'') of
          None \<Rightarrow> Some (messages (systemPrompt0 cfg text from to) (userPrompt0 cfg text from to))
        | Some v \<Rightarrow> Some v)"
  by (simp add: requestBody0_def map_of_put map_of_spread str_def split: option.splits)

lemma requestBody0_model:
  "map_of (requestBody0 cfg text from to) (str ''model'')
     = (case map_of (rev (ownEntries (parsedParameters0 cfg))) (str ''model'') of
          None \<Rightarrow> Some (JStr (orDefault (model cfg) (str ''gpt-3.5-turbo'')))
        | Some v \<Rightarrow> Some v)"
  by (simp add: requestBody0_def map_of_put map_of_spread str_def split: option.splits)

text \<open>
  Claim C1, as stated, fails. In main.js the literal is
  \<^verbatim>\<open>{ model, messages, ...parameters, stream }\<close>: the properties of the parsed parameters
  are written after \<^verbatim>\<open>model\<close> and \<^verbatim>\<open>messages\<close> and replace them. With the parameters
  \<^verbatim>\<open>{"messages":[]}\<close> the one request that is sent carries an empty list of messages.
\<close>

theorem parameters_replace_messages:
  "map (\<lambda>req. map_of (body req) (str ''messages''))
     (requests (translate (examplePlatform \<lparr>ok = False, status = 500, data = None, reader = None\<rparr>)
        (str ''hi'') (str ''zh'') (str ''en'')
        (exampleConfig\<lparr>parameters := Some (str ''{\"messages\":[]}'')\<rparr>) False None))
   = [Some (JArr [])]"
  by (simp add: translate_def examplePlatform_def exampleConfig_def missing_def apiUrl_def
      plainURL_def endsWith_def requestBody_def parsedParameters_def spread_def orDefault_def
      JSON_parse_def str_def Let_def useStream_def)

text \<open>
  Claim C1, amended. Every request a call sends has the body built by the object literal.
  In main.js its \<^verbatim>\<open>stream\<close> field is the one the caller sets, whatever the parameters
  hold. In both variants the \<^verbatim>\<open>messages\<close> field is the property \<^verbatim>\<open>messages\<close> of the parsed
  parameters when they have one of their own, and otherwise the list of exactly two
  messages, the system message first and the user message second; and the \<^verbatim>\<open>model\<close> field
  is the property \<^verbatim>\<open>model\<close> of the parsed parameters when they have one, and otherwise
  the configured model or its default.
\<close>

theorem request_body:
  "list_all (\<lambda>req. body req = requestBody cfg text from to detect hasSetResult)
     (requests (translate P text from to cfg hasSetResult detect))
   \<and> list_all (\<lambda>req. body req = requestBody0 cfg text from to)
     (requests (translate0 P0 text from to cfg hasSetResult))
   \<and> map_of (requestBody cfg text from to detect hasSetResult) (str ''stream'')
       = Some (JBool (useStream cfg \<and> hasSetResult))
   \<and> map_of (requestBody cfg text from to detect hasSetResult) (str ''messages'')
       = (case map_of (rev (ownEntries (parsedParameters cfg))) (str ''messages'') of
            None \<Rightarrow>
              Some (JArr [JObj [(str ''role'', JStr (str ''system'')),
                                (str ''content'', JStr (systemPrompt cfg from to detect))],
                          JObj [(str ''role'', JStr (str ''user'')),
                                (str ''content'', JStr (userPrompt cfg text from to detect))]])
          | Some v \<Rightarrow> Some v)
   \<and> map_of (requestBody cfg text from to detect hasSetResult) (str ''model'')
       = (case map_of (rev (ownEntries (parsedParameters cfg))) (str ''model'') of
            None \<Rightarrow> Some (JStr (orDefault (model cfg) (str ''gpt-4o-mini'')))
          | Some v \<Rightarrow> Some v)
   \<and> map_of (requestBody0 cfg text from to) (str ''messages'')
       = (case map_of (rev (ownEntries (parsedParameters0 cfg))) (str ''messages'') of
            None \<Rightarrow>
              Some (JArr [JObj [(str ''role'', JStr (str ''system'')),
                                (str ''content'', JStr (systemPrompt0 cfg text from to))],
                          JObj [(str ''role'', JStr (str ''user'')),
                                (str ''content'', JStr (userPrompt0 cfg text from to))]])
          | Some v \<Rightarrow> Some v)
   \<and> map_of (requestBody0 cfg text from to) (str ''model'')
       = (case map_of (rev (ownEntries (parsedParameters0 cfg))) (str ''model'') of
            None \<Rightarrow> Some (JStr (orDefault (model cfg) (str ''gpt-3.5-turbo'')))
          | Some v \<Rightarrow> Some v)"
  using requests_translate [of cfg "text" "from" "to" detect hasSetResult P]
    requests_translate0 [of cfg "text" "from" "to" P0 hasSetResult]
  by (simp add: requestBody_stream requestBody_messages requestBody_model requestBody0_messages
      requestBody0_model messages_def split: option.splits)

theorem request_body_witness:
  "map_of (requestBody exampleConfig (str ''hi'') (str ''zh'') (str ''en'') None False)
     (str ''messages'')
   = Some (JArr [JObj [(str ''role'', JStr (str ''system'')),
                       (str ''content'',
                        JStr (systemPrompt exampleConfig (str ''zh'') (str ''en'') None))],
                 JObj [(str ''role'', JStr (str ''user'')),
                       (str ''content'',
                        JStr (userPrompt exampleConfig (str ''hi'') (str ''zh'') (str ''en'') None))]])
   \<and> map_of (requestBody0 exampleConfig (str ''hi'') (str ''zh'') (str ''en'')) (str ''model'')
       = Some (JStr (str ''gpt-3.5-turbo''))"
proof -
  have a: "ownEntries (parsedParameters exampleConfig) = [(str ''temperature'', JNum (str ''0.1''))]"
    by (simp add: parsedParameters_def exampleConfig_def orDefault_def missing_def JSON_parse_def
        lexNumber_def lexFraction_def lexExponent_def isDigit_def str_def Let_def)
  have b: "ownEntries (parsedParameters0 exampleConfig) = [(str ''temperature'', JNum (str ''0.1''))]"
    by (simp add: parsedParameters0_def exampleConfig_def orDefault_def missing_def JSON_parse_def
        lexNumber_def lexFraction_def lexExponent_def isDigit_def str_def Let_def)
  have c: "orDefault (model exampleConfig) (str ''gpt-3.5-turbo'') = str ''gpt-3.5-turbo''"
    by (simp add: exampleConfig_def orDefault_def missing_def)
  have d: "map_of (rev (ownEntries (parsedParameters exampleConfig))) (str ''messages'') = None"
    by (simp add: a str_def)
  have e: "map_of (rev (ownEntries (parsedParameters0 exampleConfig))) (str ''model'') = None"
    by (simp add: b str_def)
  show ?thesis
    using request_body [of exampleConfig "str ''hi''" "str ''zh''" "str ''en''" None False
        "examplePlatform \<lparr>ok = True, status = 200, data = None, reader = None\<rparr>"
        "examplePlatform0 \<lparr>ok = True, status = 200, data = None, reader = None\<rparr>"]
      c d e
    by simp
qed

section \<open>The streaming example\<close>

lemmas stream_eval = readStream_def processLine_def deltaContent_def applyRemoveTag_def
  removeTagMatches_def tagsToRemove_def matchRemoveTag_def trim_def isWhiteSpace_def isRegExpChar_def str_def Let_def
  andThen_def JSON_parse_def escapeValue_def

lemmas text_eval = readText_def processData_def deltaContent0_def nullish_def applyTagRemoval_def
  tagsToRemove_def matchTagRemoval_def replace_def trim_def isWhiteSpace_def isRegExpChar_def
  str_def Let_def andThen_def JSON_parse_def escapeValue_def

lemma readStream_hello:
  "readStream N (str ''<think>,<help>'') helloChunks
     = Inr ([str ''Hel...'', str ''Hello...'', str ''Hello''], str ''Hello'')"
  by (simp add: helloChunks_def stream_eval)

lemma readText_hello:
  "readText N (str ''<think>,<help>'') hasSetResult (concat helloChunks)
     = (if hasSetResult then [str ''Hel'', str ''Hello'', str ''Hello''] else [], str ''Hello'')"
  by (simp add: helloChunks_def text_eval)

lemma translate_streaming:
  assumes "\<not> missing (apiKey cfg)" "\<not> missing (requestPath cfg)" "useStream cfg"
    and "apiUrl (URL P) (the (requestPath cfg)) \<noteq> None"
    and "\<forall>req. windowFetch P req = Inr res" "ok res" "reader res = Some chunks"
    and "readStream (engine P) (orDefault (removeTag cfg) (str ''<think>,<help>'')) chunks
           = Inr (cs, final)"
  shows "shown (translate P text from to cfg True detect) = cs
       \<and> returned (translate P text from to cfg True detect) = Inr final"
  using assms by (auto simp: translate_def Let_def)

lemma translate0_streaming:
  assumes "\<not> missing (apiKey cfg)" "\<not> missing (requestPath cfg)" "useStream cfg"
    and "http P = Some fetch"
    and "\<forall>req. fetch req = Inr res" "ok res" "data res = Some (JStr raw)"
  shows "shown (translate0 P text from to cfg hasSetResult)
           = fst (readText (engine0 P) (orDefault (removeTag cfg) (str ''<think>,<help>''))
                    hasSetResult raw)
       \<and> returned (translate0 P text from to cfg hasSetResult)
           = Inr (snd (readText (engine0 P) (orDefault (removeTag cfg) (str ''<think>,<help>''))
                         hasSetResult raw))"
  using assms by (auto simp: translate0_def processResponse0_def Let_def)

text \<open>
  Claim C4. On the three chunks of the example and with the default tags, the decoder of
  main.js calls \<^verbatim>\<open>setResult\<close> with \<^verbatim>\<open>Hel...\<close>, \<^verbatim>\<open>Hello...\<close> and last with \<^verbatim>\<open>Hello\<close>, and
  returns \<^verbatim>\<open>Hello\<close>; the decoder of part_000, on the text the chunks make up, calls it with
  \<^verbatim>\<open>Hel\<close>, \<^verbatim>\<open>Hello\<close> and last with \<^verbatim>\<open>Hello\<close>, and returns \<^verbatim>\<open>Hello\<close>. So does \<^verbatim>\<open>translate\<close>
  as a whole, in streaming mode with the callback, when the configuration has a key and a
  path and leaves the tags at their default, and the fetch primitive answers with a
  successful response that carries the example.
\<close>

theorem stream_example:
  "readStream N (str ''<think>,<help>'') helloChunks
     = Inr ([str ''Hel...'', str ''Hello...'', str ''Hello''], str ''Hello'')
   \<and> readText N (str ''<think>,<help>'') True (concat helloChunks)
     = ([str ''Hel'', str ''Hello'', str ''Hello''], str ''Hello'')
   \<and> (\<not> missing (apiKey cfg) \<and> \<not> missing (requestPath cfg) \<and> useStream cfg
        \<and> missing (removeTag cfg) \<and> apiUrl (URL P) (the (requestPath cfg)) \<noteq> None
        \<and> (\<forall>req. windowFetch P req = Inr res) \<and> ok res \<and> reader res = Some helloChunks
      \<longrightarrow> shown (translate P text from to cfg True detect)
            = [str ''Hel...'', str ''Hello...'', str ''Hello'']
          \<and> returned (translate P text from to cfg True detect) = Inr (str ''Hello''))
   \<and> (\<not> missing (apiKey cfg) \<and> \<not> missing (requestPath cfg) \<and> useStream cfg
        \<and> missing (removeTag cfg) \<and> http P0 = Some fetch
        \<and> (\<forall>req. fetch req = Inr res0) \<and> ok res0
        \<and> data res0 = Some (JStr (concat helloChunks))
      \<longrightarrow> shown (translate0 P0 text from to cfg True)
            = [str ''Hel'', str ''Hello'', str ''Hello'']
          \<and> returned (translate0 P0 text from to cfg True) = Inr (str ''Hello''))"
proof (intro conjI impI)
  show "readStream N (str ''<think>,<help>'') helloChunks
     = Inr ([str ''Hel...'', str ''Hello...'', str ''Hello''], str ''Hello'')"
    by (rule readStream_hello)
  show "readText N (str ''<think>,<help>'') True (concat helloChunks)
     = ([str ''Hel'', str ''Hello'', str ''Hello''], str ''Hello'')"
    by (simp add: readText_hello)
next
  assume a: "\<not> missing (apiKey cfg) \<and> \<not> missing (requestPath cfg) \<and> useStream cfg
        \<and> missing (removeTag cfg) \<and> apiUrl (URL P) (the (requestPath cfg)) \<noteq> None
        \<and> (\<forall>req. windowFetch P req = Inr res) \<and> ok res \<and> reader res = Some helloChunks"
  then have t: "orDefault (removeTag cfg) (str ''<think>,<help>'') = str ''<think>,<help>''"
    by (simp add: orDefault_def)
  have r: "readStream (engine P) (orDefault (removeTag cfg) (str ''<think>,<help>'')) helloChunks
     = Inr ([str ''Hel...'', str ''Hello...'', str ''Hello''], str ''Hello'')"
    unfolding t by (rule readStream_hello)
  from a have s: "shown (translate P text from to cfg True detect)
         = [str ''Hel...'', str ''Hello...'', str ''Hello'']
       \<and> returned (translate P text from to cfg True detect) = Inr (str ''Hello'')"
    by (intro translate_streaming [OF _ _ _ _ _ _ _ r]) auto
  from s show "shown (translate P text from to cfg True detect)
         = [str ''Hel...'', str ''Hello...'', str ''Hello'']"
    by simp
  from s show "returned (translate P text from to cfg True detect) = Inr (str ''Hello'')"
    by simp
next
  assume a: "\<not> missing (apiKey cfg) \<and> \<not> missing (requestPath cfg) \<and> useStream cfg
        \<and> missing (removeTag cfg) \<and> http P0 = Some fetch
        \<and> (\<forall>req. fetch req = Inr res0) \<and> ok res0
        \<and> data res0 = Some (JStr (concat helloChunks))"
  then have t: "orDefault (removeTag cfg) (str ''<think>,<help>'') = str ''<think>,<help>''"
    by (simp add: orDefault_def)
  from a have s: "shown (translate0 P0 text from to cfg True)
           = fst (readText (engine0 P0) (orDefault (removeTag cfg) (str ''<think>,<help>''))
                    True (concat helloChunks))
       \<and> returned (translate0 P0 text from to cfg True)
           = Inr (snd (readText (engine0 P0) (orDefault (removeTag cfg) (str ''<think>,<help>''))
                         True (concat helloChunks)))"
    by (intro translate0_streaming) auto
  from s show "shown (translate0 P0 text from to cfg True)
         = [str ''Hel'', str ''Hello'', str ''Hello'']"
    by (simp add: t readText_hello)
  from s show "returned (translate0 P0 text from to cfg True) = Inr (str ''Hello'')"
    by (simp add: t readText_hello)
qed

theorem stream_example_witness:
  "shown (translate
            (examplePlatform \<lparr>ok = True, status = 200, data = None, reader = Some helloChunks\<rparr>)
            (str ''hi'') (str ''zh'') (str ''en'')
            (exampleConfig\<lparr>use_stream := Some (str ''true'')\<rparr>) True None)
     = [str ''Hel...'', str ''Hello...'', str ''Hello'']
   \<and> returned (translate
            (examplePlatform \<lparr>ok = True, status = 200, data = None, reader = Some helloChunks\<rparr>)
            (str ''hi'') (str ''zh'') (str ''en'')
            (exampleConfig\<lparr>use_stream := Some (str ''true'')\<rparr>) True None)
     = Inr (str ''Hello'')
   \<and> returned (translate0
            (examplePlatform0
               \<lparr>ok = True, status = 200, data = Some (JStr (concat helloChunks)), reader = None\<rparr>)
            (str ''hi'') (str ''zh'') (str ''en'')
            (exampleConfig\<lparr>use_stream := Some (str ''true'')\<rparr>) True)
     = Inr (str ''Hello'')"
proof -
  have u: "apiUrl plainURL (str ''https://h/v1'') \<noteq> None"
    by (simp add: apiUrl_def plainURL_def endsWith_def str_def Let_def)
  show ?thesis
    using u stream_example
      [of exampleEngine "exampleConfig\<lparr>use_stream := Some (str ''true'')\<rparr>"
        "examplePlatform \<lparr>ok = True, status = 200, data = None, reader = Some helloChunks\<rparr>"
        "\<lparr>ok = True, status = 200, data = None, reader = Some helloChunks\<rparr>"
        "str ''hi''" "str ''zh''" "str ''en''" None
        "examplePlatform0
           \<lparr>ok = True, status = 200, data = Some (JStr (concat helloChunks)), reader = None\<rparr>"
        "\<lambda>req. Inr \<lparr>ok = True, status = 200, data = Some (JStr (concat helloChunks)),
                      reader = None\<rparr>"
        "\<lparr>ok = True, status = 200, data = Some (JStr (concat helloChunks)), reader = None\<rparr>"]
    by (simp add: exampleConfig_def examplePlatform_def examplePlatform0_def missing_def
        useStream_def str_def)
qed

section \<open>The terminator\<close>

text \<open>
  Claim C3 on main.js. The branch for \<^verbatim>\<open>[DONE]\<close> is empty: nothing stops the loop over
  the lines or the loop over the chunks, and a delta that comes after the terminator is
  appended like any other. On the example with the terminator moved in front of the second
  delta, the decoder, and with it \<^verbatim>\<open>translate\<close>, still returns \<^verbatim>\<open>Hello\<close>.
\<close>

theorem readStream_reads_past_terminator:
  "readStream N (str ''<think>,<help>'') chunksPastTerminator
     = Inr ([str ''Hel...'', str ''Hello...'', str ''Hello''], str ''Hello'')
   \<and> returned (translate
        (examplePlatform
           \<lparr>ok = True, status = 200, data = None, reader = Some chunksPastTerminator\<rparr>)
        (str ''hi'') (str ''zh'') (str ''en'')
        (exampleConfig\<lparr>use_stream := Some (str ''true'')\<rparr>) True None)
     = Inr (str ''Hello'')"
proof -
  have a: "readStream N (str ''<think>,<help>'') chunksPastTerminator
     = Inr ([str ''Hel...'', str ''Hello...'', str ''Hello''], str ''Hello'')" for N
    by (simp add: chunksPastTerminator_def stream_eval)
  have b: "returned (translate
        (examplePlatform
           \<lparr>ok = True, status = 200, data = None, reader = Some chunksPastTerminator\<rparr>)
        (str ''hi'') (str ''zh'') (str ''en'')
        (exampleConfig\<lparr>use_stream := Some (str ''true'')\<rparr>) True None)
     = Inr (str ''Hello'')"
    by (intro conjunct2 [OF translate_streaming
          [where res = "\<lparr>ok = True, status = 200, data = None,
                          reader = Some chunksPastTerminator\<rparr>"
             and chunks = chunksPastTerminator
             and cs = "[str ''Hel...'', str ''Hello...'', str ''Hello'']"]])
      (simp_all add: a exampleConfig_streaming_ready exampleConfig_ready examplePlatform_def
        plainURL_example)
  show ?thesis using a b by simp
qed

text \<open>part_000 leaves its loop at the terminator: on the same text the result is \<^verbatim>\<open>Hel\<close>.\<close>

lemma readText_stops_at_terminator_example:
  "readText N (str ''<think>,<help>'') True (concat chunksPastTerminator)
     = ([str ''Hel'', str ''Hel''], str ''Hel'')"
  by (simp add: chunksPastTerminator_def text_eval)

text \<open>
  In part_000 the lines behind a terminator line have no effect, whatever they are and
  whatever came before.
\<close>

theorem processLines0_stops_at_terminator:
  "startsWith (trim line) (str ''data:'') \<Longrightarrow> trim (drop 5 (trim line)) = str ''[DONE]'' \<Longrightarrow>
   processLines0 N t hasSetResult st (pre @ line # post)
     = processLines0 N t hasSetResult st (pre @ [line])"
  by (induction pre arbitrary: st) (auto simp: str_def)

theorem processLines0_stops_at_terminator_witness:
  "processLines0 exampleEngine (str ''<think>,<help>'') True \<lparr>fullContent = [], calls = []\<rparr>
     ([] @ str ''data: [DONE]'' # [str ''data: {\"choices\":[{\"delta\":{\"content\":\"lo\"}}]}''])
   = processLines0 exampleEngine (str ''<think>,<help>'') True \<lparr>fullContent = [], calls = []\<rparr>
     ([] @ [str ''data: [DONE]''])"
proof -
  have a: "startsWith (trim (str ''data: [DONE]'')) (str ''data:'')"
    by (simp add: trim_def isWhiteSpace_def str_def)
  have b: "trim (drop 5 (trim (str ''data: [DONE]''))) = str ''[DONE]''"
    by (simp add: trim_def isWhiteSpace_def str_def)
  show ?thesis
    using processLines0_stops_at_terminator [OF a b] by blast
qed

section \<open>Empty content\<close>

lemma messageContent_empty:
  assumes "map_of ms (str ''choices'') = Some (JArr (JObj cs # rest))"
    and "map_of cs (str ''message'') = Some (JObj ws)"
    and "map_of ws (str ''content'') = Some (JStr [])"
  shows "messageContent N (Some (JObj ms)) = Inr None"
  using assms by (simp add: messageContent_def andThen_def)

lemma bufferedResult_empty:
  assumes "ok res" and "data res = Some (JObj ms)"
    and "map_of ms (str ''choices'') = Some (JArr (JObj cs # rest))"
    and "map_of cs (str ''message'') = Some (JObj ws)"
    and "map_of ws (str ''content'') = Some (JStr [])"
  shows "bufferedResult N t res = Inl (InvalidResponse (data res))"
  using assms messageContent_empty [of ms cs rest ws N]
  by (simp add: bufferedResult_def andThen_def)

lemma processResponse0_empty:
  assumes "data res = Some (JObj ms)"
    and "map_of ms (str ''choices'') = Some (JArr (JObj cs # rest))"
    and "map_of cs (str ''message'') = Some (JObj ws)"
    and "map_of ws (str ''content'') = Some (JStr [])"
  shows "processResponse0 N t False hasSetResult res = ([], Inl (InvalidResponse (data res)))"
  using assms messageContent_empty [of ms cs rest ws N]
  by (simp add: processResponse0_def andThen_def)

lemma deltaContent_empty:
  assumes "map_of ms (str ''choices'') = Some (JArr (JObj cs # rest))"
    and "map_of cs (str ''delta'') = Some (JObj ds)"
    and "map_of ds (str ''content'') = Some (JStr [])"
  shows "deltaContent N (JObj ms) = Inr None"
    and "deltaContent0 (JObj ms) = Inr (Some (JStr []))"
  using assms by (simp_all add: deltaContent_def deltaContent0_def nullish_def andThen_def)

text \<open>
  Claim C9. The tests of the content are tests of truthiness, and the empty string is
  falsy. Take a response body that is an object whose \<^verbatim>\<open>choices\<close> is an array, the first
  element of it an object whose \<^verbatim>\<open>message\<close> is an object whose \<^verbatim>\<open>content\<close> is the empty
  string, whatever else the three objects and the array hold. In buffered mode a
  successful response with that body is answered with the error of the invalid response
  structure, which carries the body, in main.js and in part_000, by the code that reads
  the response and so by \<^verbatim>\<open>translate\<close>; no text is returned. In streaming mode a data
  line whose payload is such an object, with \<^verbatim>\<open>delta\<close> in the place of \<^verbatim>\<open>message\<close>, leaves
  the accumulated text and the calls of \<^verbatim>\<open>setResult\<close> as they are.
\<close>

theorem empty_content_rejected:
  "(ok res \<and> data res = Some (JObj ms)
      \<and> map_of ms (str ''choices'') = Some (JArr (JObj cs # rest))
      \<and> map_of cs (str ''message'') = Some (JObj ws)
      \<and> map_of ws (str ''content'') = Some (JStr []) \<longrightarrow>
      bufferedResult N t res = Inl (InvalidResponse (data res))
      \<and> processResponse0 N t False hasSetResult res = ([], Inl (InvalidResponse (data res)))
      \<and> (\<not> missing (apiKey cfg) \<and> \<not> missing (requestPath cfg)
           \<and> \<not> (useStream cfg \<and> hasSetResult) \<and> apiUrl (URL P) (the (requestPath cfg)) \<noteq> None
           \<and> (\<forall>req. tauriFetch P req = Inr res)
         \<longrightarrow> shown (translate P text from to cfg hasSetResult detect) = []
             \<and> returned (translate P text from to cfg hasSetResult detect)
                 = Inl (InvalidResponse (data res)))
      \<and> (\<not> missing (apiKey cfg) \<and> \<not> missing (requestPath cfg) \<and> \<not> useStream cfg
           \<and> http P0 = Some fetch \<and> (\<forall>req. fetch req = Inr res)
         \<longrightarrow> shown (translate0 P0 text from to cfg hasSetResult) = []
             \<and> returned (translate0 P0 text from to cfg hasSetResult)
                 = Inl (InvalidResponse (data res))))
   \<and> (map_of es (str ''choices'') = Some (JArr (JObj fs # others))
        \<and> map_of fs (str ''delta'') = Some (JObj ds)
        \<and> map_of ds (str ''content'') = Some (JStr []) \<longrightarrow>
      (startsWith line (str ''data: '') \<and> JSON_parse (trim (drop 6 line)) = Some (JObj es)
         \<longrightarrow> processLine N t st line = st)
      \<and> (JSON_parse payload = Some (JObj es)
         \<longrightarrow> processData N t hasSetResult st payload = st))"
proof (intro conjI impI)
  assume a: "ok res \<and> data res = Some (JObj ms)
      \<and> map_of ms (str ''choices'') = Some (JArr (JObj cs # rest))
      \<and> map_of cs (str ''message'') = Some (JObj ws)
      \<and> map_of ws (str ''content'') = Some (JStr [])"
  then show b: "bufferedResult N t res = Inl (InvalidResponse (data res))" for N t
    using bufferedResult_empty [of res ms cs rest ws N t] by simp
  from a show c: "processResponse0 N t False hasSetResult res
      = ([], Inl (InvalidResponse (data res)))" for N t
    using processResponse0_empty [of res ms cs rest ws N t hasSetResult] by simp
  {
    assume d: "\<not> missing (apiKey cfg) \<and> \<not> missing (requestPath cfg)
           \<and> \<not> (useStream cfg \<and> hasSetResult) \<and> apiUrl (URL P) (the (requestPath cfg)) \<noteq> None
           \<and> (\<forall>req. tauriFetch P req = Inr res)"
    then have e: "shown (translate P text from to cfg hasSetResult detect) = []
       \<and> returned (translate P text from to cfg hasSetResult detect)
           = bufferedResult (engine P) (orDefault (removeTag cfg) (str ''<think>,<help>'')) res"
      by (intro translate_buffered) auto
    from e show "shown (translate P text from to cfg hasSetResult detect) = []"
      by simp
    from e show "returned (translate P text from to cfg hasSetResult detect)
        = Inl (InvalidResponse (data res))"
      by (simp add: b)
  }
  {
    assume d: "\<not> missing (apiKey cfg) \<and> \<not> missing (requestPath cfg) \<and> \<not> useStream cfg
           \<and> http P0 = Some fetch \<and> (\<forall>req. fetch req = Inr res)"
    with a have e: "shown (translate0 P0 text from to cfg hasSetResult)
           = fst (processResponse0 (engine0 P0) (orDefault (removeTag cfg) (str ''<think>,<help>''))
                    False hasSetResult res)
       \<and> returned (translate0 P0 text from to cfg hasSetResult)
           = snd (processResponse0 (engine0 P0) (orDefault (removeTag cfg) (str ''<think>,<help>''))
                    False hasSetResult res)"
      by (intro translate0_buffered) auto
    from e show "shown (translate0 P0 text from to cfg hasSetResult) = []"
      by (simp add: c)
    from e show "returned (translate0 P0 text from to cfg hasSetResult)
        = Inl (InvalidResponse (data res))"
      by (simp add: c)
  }
next
  assume a: "map_of es (str ''choices'') = Some (JArr (JObj fs # others))
        \<and> map_of fs (str ''delta'') = Some (JObj ds)
        \<and> map_of ds (str ''content'') = Some (JStr [])"
  then have d: "deltaContent N (JObj es) = Inr None"
    and d0: "deltaContent0 (JObj es) = Inr (Some (JStr []))"
    using deltaContent_empty(1) [of es fs others ds N] deltaContent_empty(2) [of es fs others ds]
    by simp_all
  {
    assume "startsWith line (str ''data: '') \<and> JSON_parse (trim (drop 6 line)) = Some (JObj es)"
    then show "processLine N t st line = st"
      by (simp add: processLine_def Let_def d)
  }
  {
    assume "JSON_parse payload = Some (JObj es)"
    then show "processData N t hasSetResult st payload = st"
      by (simp add: processData_def d0)
  }
qed

theorem empty_content_rejected_witness:
  "returned (translate
       (examplePlatform \<lparr>ok = True, status = 200, data = Some emptyCompletion, reader = None\<rparr>)
       (str ''hi'') (str ''zh'') (str ''en'') exampleConfig True None)
     = Inl (InvalidResponse (Some emptyCompletion))
   \<and> returned (translate0
       (examplePlatform0 \<lparr>ok = True, status = 200, data = Some emptyCompletion, reader = None\<rparr>)
       (str ''hi'') (str ''zh'') (str ''en'') exampleConfig True)
     = Inl (InvalidResponse (Some emptyCompletion))
   \<and> processLine exampleEngine (str ''<think>,<help>'') \<lparr>fullContent = str ''Hel'', calls = [str ''Hel'']\<rparr>
        (str ''data: {\"id\":\"c1\",\"choices\":[{\"index\":0,\"delta\":{\"role\":\"assistant\",\"content\":\"\"}}]}'')
      = \<lparr>fullContent = str ''Hel'', calls = [str ''Hel'']\<rparr>
   \<and> processData exampleEngine (str ''<think>,<help>'') True \<lparr>fullContent = str ''Hel'', calls = [str ''Hel'']\<rparr>
        (str ''{\"id\":\"c1\",\"choices\":[{\"index\":0,\"delta\":{\"role\":\"assistant\",\"content\":\"\"}}]}'')
      = \<lparr>fullContent = str ''Hel'', calls = [str ''Hel'']\<rparr>"
proof -
  have a: "JSON_parse (str ''{\"id\":\"c1\",\"choices\":[{\"index\":0,\"delta\":{\"role\":\"assistant\",\"content\":\"\"}}]}'')
      = Some (JObj [(str ''id'', JStr (str ''c1'')), (str ''choices'', JArr [JObj [(str ''index'', JNum (str ''0'')), (str ''delta'', JObj [(str ''role'', JStr (str ''assistant'')), (str ''content'', JStr [])])]])])"
    by (simp add: JSON_parse_def escapeValue_def lexNumber_def lexFraction_def lexExponent_def
        isDigit_def str_def Let_def)
  have b: "trim (drop 6 (str ''data: {\"id\":\"c1\",\"choices\":[{\"index\":0,\"delta\":{\"role\":\"assistant\",\"content\":\"\"}}]}''))
      = str ''{\"id\":\"c1\",\"choices\":[{\"index\":0,\"delta\":{\"role\":\"assistant\",\"content\":\"\"}}]}''"
    by (simp add: trim_def isWhiteSpace_def str_def)
  have c: "startsWith (str ''data: {\"id\":\"c1\",\"choices\":[{\"index\":0,\"delta\":{\"role\":\"assistant\",\"content\":\"\"}}]}'') (str ''data: '')"
    by (simp add: str_def)
  have d: "map_of [(str ''id'', JStr (str ''c1'')), (str ''choices'', JArr [JObj [(str ''index'', JNum (str ''0'')), (str ''delta'', JObj [(str ''role'', JStr (str ''assistant'')), (str ''content'', JStr [])])]])] (str ''choices'') = Some (JArr (JObj [(str ''index'', JNum (str ''0'')), (str ''delta'', JObj [(str ''role'', JStr (str ''assistant'')), (str ''content'', JStr [])])] # []))"
    "map_of [(str ''index'', JNum (str ''0'')), (str ''delta'', JObj [(str ''role'', JStr (str ''assistant'')), (str ''content'', JStr [])])] (str ''delta'') = Some (JObj [(str ''role'', JStr (str ''assistant'')), (str ''content'', JStr [])])"
    "map_of [(str ''role'', JStr (str ''assistant'')), (str ''content'', JStr [])] (str ''content'') = Some (JStr [])"
    by (simp_all add: str_def)
  have e: "map_of [(str ''id'', JStr (str ''c1'')), (str ''choices'', JArr [JObj [(str ''index'', JNum (str ''0'')), (str ''message'', JObj [(str ''role'', JStr (str ''assistant'')), (str ''content'', JStr [])]),
      (str ''finish_reason'', JStr (str ''stop''))]])] (str ''choices'') = Some (JArr (JObj [(str ''index'', JNum (str ''0'')), (str ''message'', JObj [(str ''role'', JStr (str ''assistant'')), (str ''content'', JStr [])]),
      (str ''finish_reason'', JStr (str ''stop''))] # []))"
    "map_of [(str ''index'', JNum (str ''0'')), (str ''message'', JObj [(str ''role'', JStr (str ''assistant'')), (str ''content'', JStr [])]),
      (str ''finish_reason'', JStr (str ''stop''))] (str ''message'') = Some (JObj [(str ''role'', JStr (str ''assistant'')), (str ''content'', JStr [])])"
    "map_of [(str ''role'', JStr (str ''assistant'')), (str ''content'', JStr [])] (str ''content'') = Some (JStr [])"
    by (simp_all add: str_def)
  show ?thesis
    unfolding emptyCompletion_def
    using a b c d e empty_content_rejected
      [of "\<lparr>ok = True, status = 200, data = Some (JObj [(str ''id'', JStr (str ''c1'')), (str ''choices'', JArr [JObj [(str ''index'', JNum (str ''0'')), (str ''message'', JObj [(str ''role'', JStr (str ''assistant'')), (str ''content'', JStr [])]),
      (str ''finish_reason'', JStr (str ''stop''))]])]), reader = None\<rparr>"
        "[(str ''id'', JStr (str ''c1'')), (str ''choices'', JArr [JObj [(str ''index'', JNum (str ''0'')), (str ''message'', JObj [(str ''role'', JStr (str ''assistant'')), (str ''content'', JStr [])]),
      (str ''finish_reason'', JStr (str ''stop''))]])]"
        "[(str ''index'', JNum (str ''0'')), (str ''message'', JObj [(str ''role'', JStr (str ''assistant'')), (str ''content'', JStr [])]),
      (str ''finish_reason'', JStr (str ''stop''))]"
        "[]"
        "[(str ''role'', JStr (str ''assistant'')), (str ''content'', JStr [])]"
        exampleEngine "str ''<think>,<help>''" True exampleConfig
        "examplePlatform \<lparr>ok = True, status = 200, data = Some (JObj [(str ''id'', JStr (str ''c1'')), (str ''choices'', JArr [JObj [(str ''index'', JNum (str ''0'')), (str ''message'', JObj [(str ''role'', JStr (str ''assistant'')), (str ''content'', JStr [])]),
      (str ''finish_reason'', JStr (str ''stop''))]])]), reader = None\<rparr>"
        "str ''hi''" "str ''zh''" "str ''en''" None
        "examplePlatform0 \<lparr>ok = True, status = 200, data = Some (JObj [(str ''id'', JStr (str ''c1'')), (str ''choices'', JArr [JObj [(str ''index'', JNum (str ''0'')), (str ''message'', JObj [(str ''role'', JStr (str ''assistant'')), (str ''content'', JStr [])]),
      (str ''finish_reason'', JStr (str ''stop''))]])]), reader = None\<rparr>"
        "\<lambda>req. Inr \<lparr>ok = True, status = 200, data = Some (JObj [(str ''id'', JStr (str ''c1'')), (str ''choices'', JArr [JObj [(str ''index'', JNum (str ''0'')), (str ''message'', JObj [(str ''role'', JStr (str ''assistant'')), (str ''content'', JStr [])]),
      (str ''finish_reason'', JStr (str ''stop''))]])]), reader = None\<rparr>"
        "[(str ''id'', JStr (str ''c1'')), (str ''choices'', JArr [JObj [(str ''index'', JNum (str ''0'')), (str ''delta'', JObj [(str ''role'', JStr (str ''assistant'')), (str ''content'', JStr [])])]])]"
        "[(str ''index'', JNum (str ''0'')), (str ''delta'', JObj [(str ''role'', JStr (str ''assistant'')), (str ''content'', JStr [])])]"
        "[]"
        "[(str ''role'', JStr (str ''assistant'')), (str ''content'', JStr [])]"
        "str ''data: {\"id\":\"c1\",\"choices\":[{\"index\":0,\"delta\":{\"role\":\"assistant\",\"content\":\"\"}}]}''"
        "\<lparr>fullContent = str ''Hel'', calls = [str ''Hel'']\<rparr>"
        "str ''{\"id\":\"c1\",\"choices\":[{\"index\":0,\"delta\":{\"role\":\"assistant\",\"content\":\"\"}}]}''"]
    by (simp add: exampleConfig_ready plainURL_example examplePlatform_def examplePlatform0_def)
qed

section \<open>Lines that are not JSON\<close>

lemma processLines_append:
  "processLines N t st (a @ b) = processLines N t (processLines N t st a) b"
  by (induction a arbitrary: st) simp_all



lemma split_nonempty: "split s sep \<noteq> []"
  by (induction s) (auto simp: Let_def)

lemma split_no_sep: "sep \<notin> set s \<Longrightarrow> split s sep = [s]"
  by (induction s) (auto simp: Let_def)

lemma last_split_no_sep: "sep \<notin> set (last (split s sep))"
proof (induction s)
  case Nil
  then show ?case by simp
next
  case (Cons c cs)
  obtain h t where r: "split cs sep = h # t"
    using split_nonempty [of cs sep] by (cases "split cs sep") auto
  show ?case using Cons r by (cases t) (auto simp: Let_def)
qed

text \<open>Splitting a text in two parts: the last piece of the first part goes on in the second.\<close>

lemma split_append:
  "split (a @ b) sep = butlast (split a sep) @ split (last (split a sep) @ b) sep"
proof (induction a)
  case Nil
  then show ?case by simp
next
  case (Cons c cs)
  show ?case
  proof (cases "c = sep")
    case True
    then show ?thesis using Cons split_nonempty [of cs sep] by simp
  next
    case False
    obtain h t where r: "split cs sep = h # t"
      using split_nonempty [of cs sep] by (cases "split cs sep") auto
    show ?thesis
    proof (cases t)
      case Nil
      then show ?thesis using False Cons r by (simp add: Let_def)
    next
      case (Cons x xs)
      then show ?thesis using False Cons.IH r by (simp add: Let_def)
    qed
  qed
qed

text \<open>
  However the stream is cut into chunks, the loop of main.js processes the complete
  lines of the whole text, in order.
\<close>

lemma readLoop_lines:
  "10 \<notin> set buf \<Longrightarrow>
   readLoop N t st buf chunks = processLines N t st (butlast (split (buf @ concat chunks) 10))"
proof (induction chunks arbitrary: st buf)
  case Nil
  then show ?case by (simp add: split_no_sep)
next
  case (Cons c cs)
  have "split ((buf @ c) @ concat cs) 10
          = butlast (split (buf @ c) 10) @ split (last (split (buf @ c) 10) @ concat cs) 10"
    by (rule split_append)
  then have "butlast (split (buf @ concat (c # cs)) 10)
          = butlast (split (buf @ c) 10)
            @ butlast (split (last (split (buf @ c) 10) @ concat cs) 10)"
    by (simp add: butlast_append split_nonempty)
  then show ?case
    using Cons.IH [OF last_split_no_sep [of 10 "buf @ c"]]
    by (simp add: processLines_append)
qed

lemma readStream_lines:
  "readStream N t chunks =
     (let st = processLines N t \<lparr>fullContent = [], calls = []\<rparr>
                 (butlast (split (concat chunks) 10))
      in andThen (applyRemoveTag N t (fullContent st)) (\<lambda>finalResult.
           Inr (calls st @ [finalResult], finalResult)))"
  using readLoop_lines [of "[]" N t "\<lparr>fullContent = [], calls = []\<rparr>" chunks]
  by (simp add: readStream_def)















section \<open>Prompt rendering\<close>

lemma getSubstitution_plain: "plain rep \<Longrightarrow> getSubstitution m s pos rep = rep"
  by (induction m s pos rep rule: getSubstitution.induct) (auto split: if_splits)

lemma substituteFirst_indexOf:
  "substituteFirst s pat v =
     (case indexOf s pat of None \<Rightarrow> s | Some i \<Rightarrow> take i s @ v @ drop (i + length pat) s)"
  by (induction s) (auto split: option.splits)

lemma replace_plain: "plain v \<Longrightarrow> replace s pat v = substituteFirst s pat v"
  by (simp add: replace_def substituteFirst_indexOf getSubstitution_plain split: option.splits)

lemma langName_cases:
  "langName m code = (case m code of None \<Rightarrow> code | Some n \<Rightarrow> if n = [] then code else n)"
  by (simp add: langName_def orDefault_def missing_def split: option.splits)

text \<open>
  Claim C5, as stated, fails: \<^verbatim>\<open>replace\<close> with a string pattern replaces one occurrence.
  In the user template \<^verbatim>\<open>$to / $to\<close> the second placeholder stays.
\<close>

theorem second_placeholder_stays:
  "userPrompt (exampleConfig\<lparr>user_prompt := Some (str ''$to / $to'')\<rparr>)
     (str ''hi'') (str ''zh'') (str ''en'') None = str ''English / $to''"
  by (simp add: userPrompt_def exampleConfig_def replace_def langName_def orDefault_def
      missing_def detectKey_def str_def Let_def)

text \<open>
  Claim C5, amended. Take language codes that have an entry of their own in the language
  map or do not name a member of \<^verbatim>\<open>Object.prototype\<close> (\<open>knownCode\<close>). A language is named
  by the display name the language map has for its code, when it has one that is not
  empty, and by the code otherwise. For a text and names that are \<open>plain\<close>, rendering
  substitutes the first occurrence of each placeholder, one placeholder after the other,
  each in the result of the step before: in the user template \<^verbatim>\<open>$text\<close>, \<^verbatim>\<open>$to\<close>, \<^verbatim>\<open>$from\<close>
  and, in main.js, \<^verbatim>\<open>$detect\<close>; in the system template \<^verbatim>\<open>$to\<close>, \<^verbatim>\<open>$from\<close> and then
  \<^verbatim>\<open>$detect\<close> in main.js, \<^verbatim>\<open>$text\<close> in part_000.
\<close>

theorem prompt_rendering:
  "(knownCode m code \<longrightarrow>
      langName m code = (case m code of None \<Rightarrow> code | Some n \<Rightarrow> if n = [] then code else n))
   \<and> (knownCode (language cfg) to \<and> knownCode (language cfg) from
        \<and> knownCode (language cfg) (detectKey detect)
        \<and> plain text \<and> plain (langName (language cfg) to) \<and> plain (langName (language cfg) from)
        \<and> plain (langName (language cfg) (detectKey detect)) \<longrightarrow>
      userPrompt cfg text from to detect
        = substituteFirst (substituteFirst (substituteFirst (substituteFirst
            (orDefault (user_prompt cfg)
               (str ''Translate the following text from $from to $to: $text''))
            (str ''$text'') text)
            (str ''$to'') (langName (language cfg) to))
            (str ''$from'') (langName (language cfg) from))
            (str ''$detect'') (langName (language cfg) (detectKey detect))
      \<and> systemPrompt cfg from to detect
        = substituteFirst (substituteFirst (substituteFirst
            (orDefault (system_prompt cfg) (str ''You are a helpful translation assistant.''))
            (str ''$to'') (langName (language cfg) to))
            (str ''$from'') (langName (language cfg) from))
            (str ''$detect'') (langName (language cfg) (detectKey detect)))
   \<and> (knownCode (language cfg) to \<and> knownCode (language cfg) from
        \<and> plain text \<and> plain (langName (language cfg) to) \<and> plain (langName (language cfg) from)
      \<longrightarrow>
      userPrompt0 cfg text from to
        = substituteFirst (substituteFirst (substituteFirst
            (orDefault (user_prompt cfg)
               (str ''Translate the following text from $from to $to: $text''))
            (str ''$text'') text)
            (str ''$to'') (langName (language cfg) to))
            (str ''$from'') (langName (language cfg) from)
      \<and> systemPrompt0 cfg text from to
        = substituteFirst (substituteFirst (substituteFirst
            (orDefault (system_prompt cfg) (str ''You are a helpful translation assistant.''))
            (str ''$to'') (langName (language cfg) to))
            (str ''$from'') (langName (language cfg) from))
            (str ''$text'') text)"
  by (simp add: langName_cases [symmetric] userPrompt_def systemPrompt_def userPrompt0_def
      systemPrompt0_def replace_plain Let_def)

theorem prompt_rendering_witness:
  "userPrompt exampleConfig (str ''hi'') (str ''zh'') (str ''en'') None
     = str ''Translate the following text from zh to English: hi''
   \<and> systemPrompt0 (exampleConfig\<lparr>system_prompt := Some (str ''From $from to $to.'')\<rparr>)
       (str ''hi'') (str ''zh'') (str ''en'')
     = str ''From zh to English.''"
proof -
  have a: "plain (str ''hi'')"
    by (simp add: str_def)
  have b: "plain (langName (language exampleConfig) (str ''en''))"
    "plain (langName (language exampleConfig) (str ''zh''))"
    "plain (langName (language exampleConfig) (detectKey None))"
    by (simp_all add: exampleConfig_def langName_def orDefault_def missing_def detectKey_def
        str_def)
  have k: "knownCode (language exampleConfig) (str ''en'')"
    "knownCode (language exampleConfig) (str ''zh'')"
    "knownCode (language exampleConfig) (detectKey None)"
    by (simp_all add: knownCode_def inheritedName_def exampleConfig_def detectKey_def str_def)
  have c: "substituteFirst (substituteFirst (substituteFirst (substituteFirst
            (orDefault (user_prompt exampleConfig)
               (str ''Translate the following text from $from to $to: $text''))
            (str ''$text'') (str ''hi''))
            (str ''$to'') (langName (language exampleConfig) (str ''en'')))
            (str ''$from'') (langName (language exampleConfig) (str ''zh'')))
            (str ''$detect'') (langName (language exampleConfig) (detectKey None))
           = str ''Translate the following text from zh to English: hi''"
    by (simp add: exampleConfig_def langName_def orDefault_def missing_def detectKey_def str_def)
  have d: "userPrompt exampleConfig (str ''hi'') (str ''zh'') (str ''en'') None
     = str ''Translate the following text from zh to English: hi''"
    using a b c k
      prompt_rendering [of "language exampleConfig" "str ''en''" exampleConfig
        "str ''en''" "str ''zh''" None "str ''hi''"]
    by simp
  have b': "plain (langName (language (exampleConfig\<lparr>system_prompt := Some (str ''From $from to $to.'')\<rparr>)) (str ''en''))"
    "plain (langName (language (exampleConfig\<lparr>system_prompt := Some (str ''From $from to $to.'')\<rparr>)) (str ''zh''))"
    "plain (langName (language (exampleConfig\<lparr>system_prompt := Some (str ''From $from to $to.'')\<rparr>)) (detectKey None))"
    by (simp_all add: exampleConfig_def langName_def orDefault_def missing_def detectKey_def
        str_def)
  have c': "substituteFirst (substituteFirst (substituteFirst
            (orDefault (system_prompt (exampleConfig\<lparr>system_prompt := Some (str ''From $from to $to.'')\<rparr>))
               (str ''You are a helpful translation assistant.''))
            (str ''$to'') (langName (language (exampleConfig\<lparr>system_prompt := Some (str ''From $from to $to.'')\<rparr>)) (str ''en'')))
            (str ''$from'') (langName (language (exampleConfig\<lparr>system_prompt := Some (str ''From $from to $to.'')\<rparr>)) (str ''zh'')))
            (str ''$text'') (str ''hi'')
           = str ''From zh to English.''"
    by (simp add: exampleConfig_def langName_def orDefault_def missing_def detectKey_def str_def)
  have d': "systemPrompt0 (exampleConfig\<lparr>system_prompt := Some (str ''From $from to $to.'')\<rparr>)
       (str ''hi'') (str ''zh'') (str ''en'')
     = str ''From zh to English.''"
    using a b' c' k
      prompt_rendering [of "language exampleConfig" "str ''en''"
        "exampleConfig\<lparr>system_prompt := Some (str ''From $from to $to.'')\<rparr>"
        "str ''en''" "str ''zh''" None "str ''hi''"]
    by simp
  show ?thesis using d d' by simp
qed

text \<open>
  Claim C10. The text goes into the user template first, and the later replacements search
  the whole result, the text included. With the user template \<^verbatim>\<open>$text => $to\<close> and the
  text \<^verbatim>\<open>pay $to me\<close>, the first \<^verbatim>\<open>$to\<close> is the one of the text: the display name takes its
  place there, in main.js and in part_000, and the placeholder of the template stays. With
  the default template the placeholders \<^verbatim>\<open>$from\<close> and \<^verbatim>\<open>$to\<close> of the template come before
  the text; in main.js a \<^verbatim>\<open>$detect\<close> in the text is replaced all the same, the template
  having none.
\<close>

theorem text_not_preserved:
  "userPrompt (exampleConfig\<lparr>user_prompt := Some (str ''$text => $to'')\<rparr>)
     (str ''pay $to me'') (str ''zh'') (str ''en'') None = str ''pay English me => $to''
   \<and> userPrompt0 (exampleConfig\<lparr>user_prompt := Some (str ''$text => $to'')\<rparr>)
       (str ''pay $to me'') (str ''zh'') (str ''en'') = str ''pay English me => $to''
   \<and> userPrompt exampleConfig (str ''$detect'') (str ''zh'') (str ''en'') (Some (str ''en''))
       = str ''Translate the following text from zh to English: English''"
  by (simp add: userPrompt_def userPrompt0_def exampleConfig_def replace_def langName_def
      orDefault_def missing_def detectKey_def str_def Let_def)

section \<open>Further properties\<close>

text \<open>
  The decoder of main.js depends on the text of the stream only, not on where the stream
  is cut into chunks.
\<close>

theorem readStream_chunking:
  "concat chunks = concat chunks' \<Longrightarrow> readStream N t chunks = readStream N t chunks'"
  by (simp add: readStream_lines)

theorem readStream_chunking_witness:
  "readStream exampleEngine (str ''<think>,<help>'') [concat helloChunks]
     = readStream exampleEngine (str ''<think>,<help>'') helloChunks"
  using readStream_chunking [of "[concat helloChunks]" helloChunks exampleEngine
      "str ''<think>,<help>''"]
  by simp

text \<open>
  Whatever the request path, the URL of part_000 starts with a scheme and ends with
  \<^verbatim>\<open>/chat/completions\<close>.
\<close>

theorem normalizePath_shape:
  "(startsWith (normalizePath p) (str ''http://'') \<or> startsWith (normalizePath p) (str ''https://''))
   \<and> endsWith (normalizePath p) (str ''/chat/completions'')"
  using normalizePath_scheme [of p] normalizePath_suffix [of p] by simp

end
